theory Spec2Isabelle
  imports Main "HOL-Library.Word"
begin

unbundle bit_operations_syntax

section \<open>Data model\<close>

text \<open>
  The repository holds two renderers for the same blur pipeline: the class
  \<^verbatim>\<open>WebGPURenderer\<close> (methods \<^verbatim>\<open>getOrCreateResource\<close>, \<^verbatim>\<open>getOrCreateTexture\<close>,
  \<^verbatim>\<open>getOutputRendererFragmentShader\<close>, \<^verbatim>\<open>segment\<close>, \<^verbatim>\<open>render\<close>) and the closure-based
  \<^verbatim>\<open>createWebGPUBlurRenderer\<close> of \<^verbatim>\<open>webgpu-renderer.js\<close> (functions \<^verbatim>\<open>getTextureFormat\<close>,
  \<^verbatim>\<open>getOrCreateResource\<close>, \<^verbatim>\<open>getOrCreateTexture\<close>, \<^verbatim>\<open>renderWithWebGPU\<close> and the returned
  \<^verbatim>\<open>render\<close>). Both are embedded. The GPU device, the presentation context, the
  segmenter and the blur engine are collaborators: every call to one of them is
  recorded as an event, and the environment decides whether that call throws.
  Debug output through \<^verbatim>\<open>console.log\<close> is not recorded; \<^verbatim>\<open>console.warn\<close> is.
\<close>

type_synonym obj = nat

datatype js_error =
    Error string
  | ReferenceError string
  | TypeError string
  | Exception string

datatype gpu_object =
    GPUTexture obj nat nat string nat
  | GPUExternalTexture obj
  | GPUBuffer obj nat nat
  | GPURenderPipeline obj

fun oid :: "gpu_object \<Rightarrow> obj" where
  "oid (GPUTexture i w h f u) = i"
| "oid (GPUExternalTexture i) = i"
| "oid (GPUBuffer i n u) = i"
| "oid (GPURenderPipeline i) = i"

text \<open>The \<^verbatim>\<open>width\<close> and \<^verbatim>\<open>height\<close> properties of a cached object; only a texture has them.\<close>

fun width_of :: "gpu_object \<Rightarrow> nat option" where
  "width_of (GPUTexture i w h f u) = Some w"
| "width_of (GPUExternalTexture i) = None"
| "width_of (GPUBuffer i n u) = None"
| "width_of (GPURenderPipeline i) = None"

fun height_of :: "gpu_object \<Rightarrow> nat option" where
  "height_of (GPUTexture i w h f u) = Some h"
| "height_of (GPUExternalTexture i) = None"
| "height_of (GPUBuffer i n u) = None"
| "height_of (GPURenderPipeline i) = None"

datatype binding_resource =
    Undefined
  | Object obj
  | View obj

record color_attachment =
  view :: binding_resource
  clearValue :: "nat \<times> nat \<times> nat \<times> nat"
  loadOp :: string
  storeOp :: string

datatype event =
    ConsoleWarn string js_error
  | Fetch string
  | CreateShaderModule obj string "(string \<times> string) list"
  | CreateTexture obj nat nat string nat
  | TextureDestroy obj
  | CreateBuffer obj nat nat
  | BufferDestroy obj
  | ImportExternalTexture obj
  | CopyExternalImageToTexture obj nat nat
  | CreateCommandEncoder obj
  | GetInputBuffer obj
  | CreateBindGroup obj obj "(nat \<times> binding_resource) list"
  | BeginComputePass obj
  | SetPipeline obj
  | SetBindGroup nat "obj option"
  | DispatchWorkgroups nat nat
  | PassEnd
  | QueueSubmit obj
  | SegmentGPUBuffer
  | GetOutputBuffer obj
  | CopyBufferToTexture obj nat obj nat nat
  | CopyTextureToBuffer "obj option" obj nat nat nat
  | MapAsync obj nat
  | GetMappedRange obj
  | Unmap obj
  | SegmenterSegment nat nat
  | WriteTexture obj nat nat nat
  | ContextConfigure string nat
  | GetCurrentTexture obj
  | SetInputDimensions nat nat
  | Blur obj obj obj obj nat
  | CreateRenderPipeline obj obj obj string
  | BeginRenderPass obj "color_attachment list"
  | Draw nat
  | NewVideoFrame nat nat int "nat option"

text \<open>
  The environment of one call: which collaborator calls throw (and what), the format
  \<^verbatim>\<open>navigator.gpu.getPreferredCanvasFormat()\<close> returns, the size of the image the CPU
  segmenter returns, and whether an adapter and a canvas context can be had.
\<close>

record env =
  raises :: "event \<Rightarrow> js_error option"
  preferredCanvasFormat :: string
  maskImageData :: "nat \<times> nat"
  adapterAvailable :: bool
  contextAvailable :: bool

record segmenter_flags =
  segmentGPUBuffer :: bool
  deviceType :: string

record shader_module =
  shaderUrl :: string
  substitutions :: "(string \<times> string) list"

record videoframe =
  displayWidth :: nat
  displayHeight :: nat
  timestamp :: int
  duration :: "nat option"

record downscaled_resource =
  texture :: "gpu_object option"
  buffer :: "gpu_object option"

text \<open>
  What both renderers keep between frames: the object counter that gives every
  created object its identity, the resource cache, the size of the offscreen canvas,
  the two configuration flags, the segmentation size and the objects built once.
\<close>

record pipeline =
  next_id :: obj
  resourceCache :: "string \<rightharpoonup> gpu_object"
  canvas_width :: nat
  canvas_height :: nat
  zeroCopy :: bool
  directOutput :: bool
  segmentationWidth :: nat
  segmentationHeight :: nat
  downscaleSampler :: obj
  downscalePipeline :: obj
  outputRendererVertexShader :: obj
  outputRendererFragmentShader :: "obj option"
  renderSampler :: obj

record renderer = pipeline +
  segmenter :: segmenter_flags
  format :: string
  downscaleModule :: shader_module
  lastDim :: "(nat \<times> nat) option"
  maskTexture :: "gpu_object option"

record closure = pipeline +
  lastDimString :: "string option"

section \<open>Constants of the WebGPU interface\<close>

definition GPUTextureUsage_COPY_SRC :: nat where "GPUTextureUsage_COPY_SRC = 1"
definition GPUTextureUsage_COPY_DST :: nat where "GPUTextureUsage_COPY_DST = 2"
definition GPUTextureUsage_TEXTURE_BINDING :: nat where "GPUTextureUsage_TEXTURE_BINDING = 4"
definition GPUTextureUsage_STORAGE_BINDING :: nat where "GPUTextureUsage_STORAGE_BINDING = 8"
definition GPUTextureUsage_RENDER_ATTACHMENT :: nat where "GPUTextureUsage_RENDER_ATTACHMENT = 16"
definition GPUBufferUsage_MAP_READ :: nat where "GPUBufferUsage_MAP_READ = 1"
definition GPUBufferUsage_COPY_DST :: nat where "GPUBufferUsage_COPY_DST = 8"
definition GPUMapMode_READ :: nat where "GPUMapMode_READ = 1"

section \<open>JavaScript helpers\<close>

definition digit :: "nat \<Rightarrow> char" where
  "digit d = ''0123456789'' ! d"

text \<open>The decimal text a template literal gives a non-negative integer.\<close>

fun string_of_nat :: "nat \<Rightarrow> string" where
  "string_of_nat n =
     (if n < 10 then [digit n] else string_of_nat (n div 10) @ [digit (n mod 10)])"

declare string_of_nat.simps [simp del]

text \<open>\<^verbatim>\<open>x || d\<close> on a number: the default replaces a zero.\<close>

definition or_default :: "nat \<Rightarrow> nat \<Rightarrow> nat" where
  "or_default x d = (if x = 0 then d else x)"

text \<open>\<^verbatim>\<open>Math.ceil(n / d)\<close> for non-negative integers.\<close>

definition Math_ceil_div :: "nat \<Rightarrow> nat \<Rightarrow> nat" where
  "Math_ceil_div n d = (n + d - 1) div d"

section \<open>Computations: state, exceptions and the trace of collaborator calls\<close>

type_synonym ('s, 'a) js = "'s \<Rightarrow> (js_error + 'a) \<times> 's \<times> event list"

definition return_js :: "'a \<Rightarrow> ('s, 'a) js" where
  "return_js x = (\<lambda>s. (Inr x, s, []))"

definition throw :: "js_error \<Rightarrow> ('s, 'a) js" where
  "throw e = (\<lambda>s. (Inl e, s, []))"

definition bnd :: "('s, 'a) js \<Rightarrow> ('a \<Rightarrow> ('s, 'b) js) \<Rightarrow> ('s, 'b) js" where
  "bnd m f = (\<lambda>s. case m s of
       (Inl e, s1, evs) \<Rightarrow> (Inl e, s1, evs)
     | (Inr x, s1, evs) \<Rightarrow> (case f x s1 of (r, s2, evs2) \<Rightarrow> (r, s2, evs @ evs2)))"

definition seq :: "('s, unit) js \<Rightarrow> ('s, 'b) js \<Rightarrow> ('s, 'b) js" where
  "seq m n = bnd m (\<lambda>_. n)"

definition try_catch :: "('s, 'a) js \<Rightarrow> (js_error \<Rightarrow> ('s, 'a) js) \<Rightarrow> ('s, 'a) js" where
  "try_catch m h = (\<lambda>s. case m s of
       (Inl e, s1, evs) \<Rightarrow> (case h e s1 of (r, s2, evs2) \<Rightarrow> (r, s2, evs @ evs2))
     | (Inr x, s1, evs) \<Rightarrow> (Inr x, s1, evs))"

definition gets :: "('s \<Rightarrow> 'a) \<Rightarrow> ('s, 'a) js" where
  "gets g = (\<lambda>s. (Inr (g s), s, []))"

definition modify :: "('s \<Rightarrow> 's) \<Rightarrow> ('s, unit) js" where
  "modify g = (\<lambda>s. (Inr (), g s, []))"

definition emit :: "event \<Rightarrow> ('s, unit) js" where
  "emit ev = (\<lambda>s. (Inr (), s, [ev]))"

text \<open>A call to a collaborator: it is recorded, and it throws when the environment says so.\<close>

definition call :: "env \<Rightarrow> event \<Rightarrow> ('s, unit) js" where
  "call en ev = (\<lambda>s. case raises en ev of
       None \<Rightarrow> (Inr (), s, [ev])
     | Some e \<Rightarrow> (Inl e, s, [ev]))"

fun calls :: "env \<Rightarrow> event list \<Rightarrow> ('s, unit) js" where
  "calls en [] = return_js ()"
| "calls en (ev # evs) = seq (call en ev) (calls en evs)"

definition fresh :: "('z pipeline_scheme, obj) js" where
  "fresh = (\<lambda>s. (Inr (next_id s), s\<lparr>next_id := Suc (next_id s)\<rparr>, []))"

text \<open>A call that returns a new object: the object is named, then the call is made.\<close>

definition create :: "env \<Rightarrow> (obj \<Rightarrow> event) \<Rightarrow> ('z pipeline_scheme, obj) js" where
  "create en mk = bnd fresh (\<lambda>i. seq (call en (mk i)) (return_js i))"

section \<open>The class \<^verbatim>\<open>WebGPURenderer\<close>\<close>

subsection \<open>Constructor\<close>

text \<open>
  The choice of the downscale shader, on the segmenter's capability as read at
  construction time.
\<close>

definition packShaderUrl :: "segmenter_flags \<Rightarrow> string" where
  "packShaderUrl sg =
     (if segmentGPUBuffer sg \<and> deviceType sg = ''gpu''
      then ''blur4/shaders/downscale-and-convert-to-rgb16float.wgsl''
      else ''blur4/shaders/downscale-and-convert-to-rgba8uint.wgsl'')"

text \<open>The fields the constructor assigns; the promises it stores are taken as resolved.\<close>

definition WebGPURenderer_fields ::
  "env \<Rightarrow> segmenter_flags \<Rightarrow> bool \<Rightarrow> bool \<Rightarrow> renderer" where
  "WebGPURenderer_fields en sg zc dout =
     (let fmt = (if dout then preferredCanvasFormat en else ''rgba8unorm'') in
      \<lparr> next_id = 5,
        resourceCache = Map.empty,
        canvas_width = 1280,
        canvas_height = 720,
        zeroCopy = zc,
        directOutput = dout,
        segmentationWidth = 256,
        segmentationHeight = 144,
        downscaleSampler = 0,
        downscalePipeline = 2,
        outputRendererVertexShader = 3,
        outputRendererFragmentShader = None,
        renderSampler = 4,
        segmenter = sg,
        format = fmt,
        downscaleModule =
          \<lparr> shaderUrl = packShaderUrl sg,
            substitutions =
              [(''inputTextureType'',
                  if zc then ''texture_external'' else ''texture_2d<f32>''),
               (''outputTextureFormat'', fmt)] \<rparr>,
        lastDim = None,
        maskTexture = None \<rparr>)"

definition WebGPURenderer_constructor ::
  "env \<Rightarrow> segmenter_flags \<Rightarrow> bool \<Rightarrow> bool \<Rightarrow> js_error + renderer" where
  "WebGPURenderer_constructor en sg zc dout =
     (if \<not> contextAvailable en then Inl (Error ''WebGPU context not available'')
      else Inr (WebGPURenderer_fields en sg zc dout))"

subsection \<open>Resource cache\<close>

definition WebGPURenderer_getOrCreateResource ::
  "string \<Rightarrow> (renderer, gpu_object) js \<Rightarrow> (renderer, gpu_object) js" where
  "WebGPURenderer_getOrCreateResource key createFn =
     bnd (gets (\<lambda>s. resourceCache s key)) (\<lambda>cached.
     case cached of
       None \<Rightarrow>
         bnd createFn (\<lambda>r.
         seq (modify (\<lambda>s. s\<lparr>resourceCache := (resourceCache s)(key \<mapsto> r)\<rparr>))
         (return_js r))
     | Some r \<Rightarrow> return_js r)"

definition textureCacheKey :: "string \<Rightarrow> nat \<Rightarrow> nat \<Rightarrow> string \<Rightarrow> nat \<Rightarrow> string" where
  "textureCacheKey key width height fmt usage =
     key @ ''_'' @ string_of_nat width @ ''x'' @ string_of_nat height
         @ ''_'' @ fmt @ ''_'' @ string_of_nat usage"

definition createTexture ::
  "env \<Rightarrow> nat \<Rightarrow> nat \<Rightarrow> string \<Rightarrow> nat \<Rightarrow> ('z pipeline_scheme, gpu_object) js" where
  "createTexture en width height fmt usage =
     bnd (create en (\<lambda>i. CreateTexture i width height fmt usage)) (\<lambda>i.
     return_js (GPUTexture i width height fmt usage))"

definition createBuffer :: "env \<Rightarrow> nat \<Rightarrow> nat \<Rightarrow> ('z pipeline_scheme, gpu_object) js" where
  "createBuffer en n usage =
     bnd (create en (\<lambda>i. CreateBuffer i n usage)) (\<lambda>i.
     return_js (GPUBuffer i n usage))"

text \<open>
  \<^verbatim>\<open>device.createBindGroup\<close>. The member \<^verbatim>\<open>resource\<close> of an entry is required: an entry
  whose resource is \<^verbatim>\<open>undefined\<close> makes the conversion of the descriptor throw a
  TypeError, and no bind group is made. Otherwise the call is the environment's.
\<close>

definition createBindGroup ::
  "env \<Rightarrow> obj \<Rightarrow> (nat \<times> binding_resource) list \<Rightarrow> ('z pipeline_scheme, obj) js" where
  "createBindGroup en layout entries =
     bnd fresh (\<lambda>i.
     if Undefined \<in> snd ` set entries
     then seq (emit (CreateBindGroup i layout entries))
            (throw (TypeError ''GPUBindGroupEntry.resource is required''))
     else seq (call en (CreateBindGroup i layout entries)) (return_js i))"

text \<open>
  \<^verbatim>\<open>new VideoFrame(canvas, {timestamp, duration})\<close>. The frame has the size of the canvas
  and the timestamp given. The member \<^verbatim>\<open>duration\<close> of the init dictionary is an
  \<^verbatim>\<open>unsigned long long\<close> that is not nullable, while the attribute \<^verbatim>\<open>duration\<close> of a frame
  is: a \<^verbatim>\<open>null\<close> handed in is converted to the number 0, so the new frame has the
  duration 0 where the incoming frame had none.
\<close>

definition new_VideoFrame ::
  "env \<Rightarrow> nat \<Rightarrow> nat \<Rightarrow> int \<Rightarrow> nat option \<Rightarrow> ('s, videoframe) js" where
  "new_VideoFrame en width height ts dur =
     seq (call en (NewVideoFrame width height ts dur))
     (return_js \<lparr> displayWidth = width, displayHeight = height, timestamp = ts,
                  duration = Some (case dur of None \<Rightarrow> 0 | Some d \<Rightarrow> d) \<rparr>)"

definition WebGPURenderer_getOrCreateTexture ::
  "env \<Rightarrow> string \<Rightarrow> nat \<times> nat \<Rightarrow> nat \<Rightarrow> (renderer, gpu_object) js" where
  "WebGPURenderer_getOrCreateTexture en key sz usage =
     (case sz of (width, height) \<Rightarrow>
      bnd (gets format) (\<lambda>fmt.
      let cacheKey = textureCacheKey key width height fmt usage in
      bnd (gets (\<lambda>s. resourceCache s cacheKey)) (\<lambda>cached.
      let allocate =
            bnd (createTexture en width height fmt usage) (\<lambda>t.
            seq (modify (\<lambda>s. s\<lparr>resourceCache := (resourceCache s)(cacheKey \<mapsto> t)\<rparr>))
            (return_js t))
      in case cached of
           None \<Rightarrow> allocate
         | Some t \<Rightarrow>
             if width_of t \<noteq> Some width \<or> height_of t \<noteq> Some height
             then seq (call en (TextureDestroy (oid t))) allocate
             else return_js t)))"

subsection \<open>Fragment shader of the compositing pass\<close>

text \<open>
  The test \<^verbatim>\<open>this.lastDim !== [width, height]\<close> compares a stored array with a new
  array, and no two arrays are identical: the second disjunct is always true.
\<close>

definition WebGPURenderer_getOutputRendererFragmentShader ::
  "env \<Rightarrow> nat \<Rightarrow> nat \<Rightarrow> (renderer, obj) js" where
  "WebGPURenderer_getOutputRendererFragmentShader en width height =
     bnd (gets outputRendererFragmentShader) (\<lambda>cached.
     case (if cached = None \<or> True then None else cached) of
       None \<Rightarrow>
         seq (call en (Fetch ''blur4/shaders/render.fragment.wgsl''))
         (bnd (create en (\<lambda>i. CreateShaderModule i ''blur4/shaders/render.fragment.wgsl''
                  [(''width'', string_of_nat width), (''height'', string_of_nat height)])) (\<lambda>m.
          seq (modify (\<lambda>s. s\<lparr>outputRendererFragmentShader := Some m,
                               lastDim := Some (width, height)\<rparr>))
          (return_js m)))
     | Some m \<Rightarrow> return_js m)"

text \<open>The function handed to the cache for the render pipeline of one canvas size.\<close>

definition WebGPURenderer_createRenderPipeline ::
  "env \<Rightarrow> nat \<Rightarrow> nat \<Rightarrow> (renderer, gpu_object) js" where
  "WebGPURenderer_createRenderPipeline en width height =
     bnd (gets outputRendererVertexShader) (\<lambda>vs.
     bnd (WebGPURenderer_getOutputRendererFragmentShader en width height) (\<lambda>fs.
     bnd (create en (\<lambda>i. CreateRenderPipeline i vs fs (preferredCanvasFormat en))) (\<lambda>i.
     return_js (GPURenderPipeline i))))"

subsection \<open>Segmentation\<close>

text \<open>The branch of \<^verbatim>\<open>segment\<close> taken when \<^verbatim>\<open>useInterop\<close> holds.\<close>

definition WebGPURenderer_segment_interop ::
  "env \<Rightarrow> obj \<Rightarrow> downscaled_resource \<Rightarrow> (renderer, gpu_object) js" where
  "WebGPURenderer_segment_interop en commandEncoder downscaledResource =
     seq (call en (QueueSubmit commandEncoder))
     (seq (case buffer downscaledResource of
             Some b \<Rightarrow> call en (BufferDestroy (oid b))
           | None \<Rightarrow> throw (TypeError ''downscaledResource.buffer is undefined''))
     (seq (call en SegmentGPUBuffer)
     (bnd (create en GetOutputBuffer) (\<lambda>outputBuffer.
      bnd (gets segmentationWidth) (\<lambda>sw.
      bnd (gets segmentationHeight) (\<lambda>sh.
      bnd (gets maskTexture) (\<lambda>mt.
      bnd (case mt of
             None \<Rightarrow>
               bnd (createTexture en sw sh ''r16float''
                      (GPUTextureUsage_TEXTURE_BINDING OR GPUTextureUsage_COPY_DST
                         OR GPUTextureUsage_RENDER_ATTACHMENT)) (\<lambda>t.
               seq (modify (\<lambda>s. s\<lparr>maskTexture := Some t\<rparr>))
               (return_js t))
           | Some t \<Rightarrow> return_js t) (\<lambda>mask.
      bnd (create en CreateCommandEncoder) (\<lambda>copyCommandEncoder.
      seq (calls en
             [CopyBufferToTexture outputBuffer (sw * 2) (oid mask) sw sh,
              QueueSubmit copyCommandEncoder,
              BufferDestroy outputBuffer])
      (return_js mask))))))))))"

text \<open>The other branch: read the downscaled texture back, segment on the CPU, upload.\<close>

definition WebGPURenderer_segment_readback ::
  "env \<Rightarrow> obj \<Rightarrow> downscaled_resource \<Rightarrow> (renderer, gpu_object) js" where
  "WebGPURenderer_segment_readback en commandEncoder downscaledResource =
     bnd (gets segmentationWidth) (\<lambda>sw.
     bnd (gets segmentationHeight) (\<lambda>sh.
     let bufferSize = sw * sh * 4 in
     bnd (WebGPURenderer_getOrCreateResource (''readbackBuffer'' @ string_of_nat bufferSize)
            (createBuffer en bufferSize (GPUBufferUsage_COPY_DST OR GPUBufferUsage_MAP_READ)))
       (\<lambda>readbackBuffer.
     seq (calls en
            [CopyTextureToBuffer (map_option oid (texture downscaledResource))
               (oid readbackBuffer) (sw * 4) sw sh,
             QueueSubmit commandEncoder,
             MapAsync (oid readbackBuffer) GPUMapMode_READ,
             GetMappedRange (oid readbackBuffer),
             Unmap (oid readbackBuffer),
             SegmenterSegment sw sh])
     (case maskImageData en of (mw, mh) \<Rightarrow>
      bnd (WebGPURenderer_getOrCreateTexture en ''maskTexture'' (mw, mh)
             (GPUTextureUsage_TEXTURE_BINDING OR GPUTextureUsage_COPY_DST
                OR GPUTextureUsage_RENDER_ATTACHMENT)) (\<lambda>mask.
      seq (call en (WriteTexture (oid mask) (mw * 4) mw mh))
      (return_js mask))))))"

text \<open>The capability check \<^verbatim>\<open>useInterop\<close>, on the segmenter as it is at the call.\<close>

definition useInterop :: "renderer \<Rightarrow> bool" where
  "useInterop s = (segmentGPUBuffer (segmenter s) \<and> deviceType (segmenter s) = ''gpu'')"

text \<open>The body of \<^verbatim>\<open>segment\<close> once \<^verbatim>\<open>commandEncoder\<close> and \<^verbatim>\<open>useInterop\<close> are bound.\<close>

definition WebGPURenderer_segment_body ::
  "bool \<Rightarrow> env \<Rightarrow> gpu_object \<Rightarrow> obj \<Rightarrow> (renderer, gpu_object) js" where
  "WebGPURenderer_segment_body interop en sourceTexture commandEncoder =
     bnd (if interop
          then bnd (create en GetInputBuffer) (\<lambda>b.
               return_js \<lparr> texture = None, buffer = Some (GPUBuffer b 0 0) \<rparr>)
          else bnd (gets segmentationWidth) (\<lambda>sw.
               bnd (gets segmentationHeight) (\<lambda>sh.
               bnd (WebGPURenderer_getOrCreateTexture en ''downscaledTexture'' (sw, sh)
                      (GPUTextureUsage_STORAGE_BINDING OR GPUTextureUsage_COPY_SRC
                         OR GPUTextureUsage_RENDER_ATTACHMENT)) (\<lambda>t.
               return_js \<lparr> texture = Some t, buffer = None \<rparr>)))) (\<lambda>downscaledResource.
     bnd (gets downscalePipeline) (\<lambda>pl.
     bnd (gets zeroCopy) (\<lambda>zc.
     bnd (gets downscaleSampler) (\<lambda>sampler.
     bnd (createBindGroup en pl
            [(0, if zc then Object (oid sourceTexture) else View (oid sourceTexture)),
             (1, Object sampler),
             (2, case texture downscaledResource of
                   None \<Rightarrow> Undefined
                 | Some t \<Rightarrow> Object (oid t))]) (\<lambda>packBindGroup.
     bnd (gets segmentationWidth) (\<lambda>sw.
     bnd (gets segmentationHeight) (\<lambda>sh.
     seq (calls en
            [BeginComputePass commandEncoder,
             SetPipeline pl,
             SetBindGroup 0 (Some packBindGroup),
             DispatchWorkgroups (Math_ceil_div sw 8) (Math_ceil_div sh 8),
             PassEnd])
     (if interop
      then WebGPURenderer_segment_interop en commandEncoder downscaledResource
      else WebGPURenderer_segment_readback en commandEncoder downscaledResource))))))))"

definition WebGPURenderer_segment :: "env \<Rightarrow> gpu_object \<Rightarrow> (renderer, gpu_object) js" where
  "WebGPURenderer_segment en sourceTexture =
     bnd (create en CreateCommandEncoder) (\<lambda>commandEncoder.
     bnd (gets useInterop) (\<lambda>interop.
     WebGPURenderer_segment_body interop en sourceTexture commandEncoder))"

subsection \<open>One frame\<close>

definition WebGPURenderer_render :: "env \<Rightarrow> videoframe \<Rightarrow> (renderer, videoframe) js" where
  "WebGPURenderer_render en videoFrame =
     bnd (gets zeroCopy) (\<lambda>zc.
     bnd (if zc
          then bnd (create en ImportExternalTexture) (\<lambda>i. return_js (GPUExternalTexture i))
          else bnd (WebGPURenderer_getOrCreateTexture en ''sourceTexture''
                      (displayWidth videoFrame, displayHeight videoFrame)
                      (GPUTextureUsage_TEXTURE_BINDING OR GPUTextureUsage_COPY_DST
                         OR GPUTextureUsage_RENDER_ATTACHMENT)) (\<lambda>t.
               seq (call en (CopyExternalImageToTexture (oid t)
                      (displayWidth videoFrame) (displayHeight videoFrame)))
               (return_js t))) (\<lambda>sourceTexture.
     bnd (WebGPURenderer_segment en sourceTexture) (\<lambda>mask.
     let processingWidth = or_default (displayWidth videoFrame) 1280;
         processingHeight = or_default (displayHeight videoFrame) 720 in
     bnd (gets directOutput) (\<lambda>dout.
     bnd (gets (\<lambda>s. canvas_width s \<noteq> processingWidth \<or> canvas_height s \<noteq> processingHeight))
       (\<lambda>resized.
     seq (if resized
          then seq (modify (\<lambda>s. s\<lparr>canvas_width := processingWidth,
                                   canvas_height := processingHeight\<rparr>))
               (call en (ContextConfigure (preferredCanvasFormat en)
                  (GPUTextureUsage_RENDER_ATTACHMENT OR
                   (if dout then GPUTextureUsage_STORAGE_BINDING OR GPUTextureUsage_COPY_DST
                    else 0))))
          else return_js ())
     (bnd (gets canvas_width) (\<lambda>width.
      bnd (gets canvas_height) (\<lambda>height.
      bnd (create en GetCurrentTexture) (\<lambda>canvasTexture.
      bnd (WebGPURenderer_getOrCreateTexture en ''outputTexture'' (width, height)
             (GPUTextureUsage_STORAGE_BINDING OR GPUTextureUsage_COPY_SRC
                OR GPUTextureUsage_TEXTURE_BINDING)) (\<lambda>outputTexture.
      bnd (create en CreateCommandEncoder) (\<lambda>commandEncoder.
      seq (call en (SetInputDimensions processingWidth processingHeight))
      (seq (call en (Blur commandEncoder (oid sourceTexture) (oid mask)
              (if dout then canvasTexture else oid outputTexture) 360))
      (seq (if \<not> dout
            then
              bnd (WebGPURenderer_getOrCreateResource
                     (''renderPipeline_'' @ string_of_nat width @ ''x'' @ string_of_nat height)
                     (WebGPURenderer_createRenderPipeline en width height)) (\<lambda>renderPipeline.
              bnd (gets renderSampler) (\<lambda>sampler.
              bnd (createBindGroup en (oid renderPipeline)
                     [(0, View (oid outputTexture)), (1, Object sampler)]) (\<lambda>renderBindGroup.
              calls en
                [BeginRenderPass commandEncoder
                   [\<lparr> view = View canvasTexture, clearValue = (0, 0, 0, 1),
                      loadOp = ''clear'', storeOp = ''store'' \<rparr>],
                 SetPipeline (oid renderPipeline),
                 SetBindGroup 0 (Some renderBindGroup),
                 Draw 6,
                 PassEnd])))
            else return_js ())
      (seq (call en (QueueSubmit commandEncoder))
      (bnd (gets canvas_width) (\<lambda>cw.
       bnd (gets canvas_height) (\<lambda>ch.
       new_VideoFrame en cw ch (timestamp videoFrame) (duration videoFrame))))))))))))))))))"

section \<open>The closure-based renderer of \<^verbatim>\<open>webgpu-renderer.js\<close>\<close>

subsection \<open>Resource cache\<close>

definition getTextureFormat :: "env \<Rightarrow> bool \<Rightarrow> string" where
  "getTextureFormat en dout = (if dout then preferredCanvasFormat en else ''rgba8unorm'')"

definition getOrCreateResource ::
  "string \<Rightarrow> (closure, gpu_object) js \<Rightarrow> (closure, gpu_object) js" where
  "getOrCreateResource key createFn =
     bnd (gets (\<lambda>s. resourceCache s key)) (\<lambda>cached.
     case cached of
       None \<Rightarrow>
         bnd createFn (\<lambda>r.
         seq (modify (\<lambda>s. s\<lparr>resourceCache := (resourceCache s)(key \<mapsto> r)\<rparr>))
         (return_js r))
     | Some r \<Rightarrow> return_js r)"

definition getOrCreateTexture ::
  "env \<Rightarrow> string \<Rightarrow> nat \<times> nat \<Rightarrow> bool \<Rightarrow> nat \<Rightarrow> (closure, gpu_object) js" where
  "getOrCreateTexture en key sz dout usage =
     (case sz of (width, height) \<Rightarrow>
      let fmt = getTextureFormat en dout;
          cacheKey = textureCacheKey key width height fmt usage in
      bnd (gets (\<lambda>s. resourceCache s cacheKey)) (\<lambda>cached.
      let allocate =
            bnd (createTexture en width height fmt usage) (\<lambda>t.
            seq (modify (\<lambda>s. s\<lparr>resourceCache := (resourceCache s)(cacheKey \<mapsto> t)\<rparr>))
            (return_js t))
      in case cached of
           None \<Rightarrow> allocate
         | Some t \<Rightarrow>
             if width_of t \<noteq> Some width \<or> height_of t \<noteq> Some height
             then seq (call en (TextureDestroy (oid t))) allocate
             else return_js t))"

subsection \<open>Fragment shader of the compositing pass\<close>

definition getOutputRendererFragmentShader :: "env \<Rightarrow> nat \<Rightarrow> nat \<Rightarrow> (closure, obj) js" where
  "getOutputRendererFragmentShader en width height =
     (let dim = string_of_nat width @ ''x'' @ string_of_nat height in
      bnd (gets outputRendererFragmentShader) (\<lambda>cached.
      bnd (gets lastDimString) (\<lambda>last.
      case (if cached = None \<or> last \<noteq> Some dim then None else cached) of
        None \<Rightarrow>
          bnd (create en (\<lambda>i. CreateShaderModule i ''outputRendererFragmentShader''
                 [(''width'', string_of_nat width), (''height'', string_of_nat height)])) (\<lambda>m.
          seq (modify (\<lambda>s. s\<lparr>outputRendererFragmentShader := Some m,
                               lastDimString := Some dim\<rparr>))
          (return_js m))
      | Some m \<Rightarrow> return_js m)))"

text \<open>The function handed to the cache for the render pipeline of one canvas size.\<close>

definition createRenderPipeline :: "env \<Rightarrow> nat \<Rightarrow> nat \<Rightarrow> (closure, gpu_object) js" where
  "createRenderPipeline en width height =
     bnd (gets outputRendererVertexShader) (\<lambda>vs.
     bnd (getOutputRendererFragmentShader en width height) (\<lambda>fs.
     bnd (create en (\<lambda>i. CreateRenderPipeline i vs fs (preferredCanvasFormat en))) (\<lambda>i.
     return_js (GPURenderPipeline i))))"

subsection \<open>The downscale shader\<close>

text \<open>
  One invocation of the compute shader \<^verbatim>\<open>main\<close> in \<^verbatim>\<open>downscaleShaderCode\<close>: the texel it
  stores, if any. Coordinates are \<^verbatim>\<open>u32\<close>. The sampled colour is a floating-point
  computation on the coordinates and the output size, taken as a parameter.
\<close>

definition downscaleShader_main ::
  "(32 word \<times> 32 word \<Rightarrow> 32 word \<times> 32 word \<Rightarrow> 'c)
     \<Rightarrow> 32 word \<times> 32 word \<Rightarrow> 32 word \<times> 32 word \<Rightarrow> ((32 word \<times> 32 word) \<times> 'c) option" where
  "downscaleShader_main sample outputDims global_id =
     (if fst global_id \<ge> fst outputDims \<or> snd global_id \<ge> snd outputDims then None
      else Some (global_id, sample global_id outputDims))"

text \<open>
  The invocations of \<^verbatim>\<open>dispatchWorkgroups(nx, ny)\<close> with \<^verbatim>\<open>@workgroup_size(8, 8)\<close>: the
  global id is the workgroup id times the workgroup size plus the local id.
\<close>

definition dispatch_global_ids :: "nat \<Rightarrow> nat \<Rightarrow> (nat \<times> nat) list" where
  "dispatch_global_ids nx ny =
     concat (map (\<lambda>wy. concat (map (\<lambda>wx.
       concat (map (\<lambda>ly. map (\<lambda>lx. (wx * 8 + lx, wy * 8 + ly)) [0..<8]) [0..<8]))
       [0..<nx])) [0..<ny])"

definition downscale_stores ::
  "(32 word \<times> 32 word \<Rightarrow> 32 word \<times> 32 word \<Rightarrow> 'c) \<Rightarrow> nat \<times> nat \<Rightarrow> nat \<Rightarrow> nat
     \<Rightarrow> ((32 word \<times> 32 word) \<times> 'c) list" where
  "downscale_stores sample dims nx ny =
     List.map_filter
       (\<lambda>g. downscaleShader_main sample (of_nat (fst dims), of_nat (snd dims))
               (of_nat (fst g), of_nat (snd g)))
       (dispatch_global_ids nx ny)"

subsection \<open>One frame\<close>

text \<open>
  \<^verbatim>\<open>renderWithWebGPU\<close> is a function of the module; the name \<^verbatim>\<open>context\<close> it uses when the
  canvas is resized is a local of \<^verbatim>\<open>createWebGPUBlurRenderer\<close> and is not bound there, so
  evaluating it throws a ReferenceError (the canvas has been resized by then).
\<close>

definition renderWithWebGPU :: "env \<Rightarrow> videoframe \<Rightarrow> (closure, videoframe) js" where
  "renderWithWebGPU en videoFrame =
     bnd (gets canvas_width) (\<lambda>width.
     bnd (gets canvas_height) (\<lambda>height.
     bnd (gets zeroCopy) (\<lambda>zc.
     bnd (gets directOutput) (\<lambda>dout.
     bnd (if zc
          then bnd (create en ImportExternalTexture) (\<lambda>i. return_js (GPUExternalTexture i))
          else bnd (getOrCreateTexture en ''sourceTexture''
                      (displayWidth videoFrame, displayHeight videoFrame) dout
                      (GPUTextureUsage_TEXTURE_BINDING OR GPUTextureUsage_COPY_DST
                         OR GPUTextureUsage_RENDER_ATTACHMENT)) (\<lambda>t.
               seq (call en (CopyExternalImageToTexture (oid t)
                      (displayWidth videoFrame) (displayHeight videoFrame)))
               (return_js t))) (\<lambda>sourceTexture.
     bnd (gets segmentationWidth) (\<lambda>sw.
     bnd (gets segmentationHeight) (\<lambda>sh.
     bnd (getOrCreateTexture en ''downscaleDest'' (sw, sh) dout
            (GPUTextureUsage_STORAGE_BINDING OR GPUTextureUsage_COPY_SRC)) (\<lambda>destTexture.
     bnd (gets downscalePipeline) (\<lambda>pl.
     bnd (gets downscaleSampler) (\<lambda>sampler.
     bnd (try_catch
            (bnd (createBindGroup en pl
                    [(0, if zc then Object (oid sourceTexture) else View (oid sourceTexture)),
                     (1, Object sampler),
                     (2, View (oid destTexture))]) (\<lambda>i. return_js (Some i)))
            (\<lambda>error. seq (emit (ConsoleWarn ''bind failed:'' error)) (return_js None)))
       (\<lambda>downscaleBindGroup.
     bnd (create en CreateCommandEncoder) (\<lambda>commandEncoder.
     seq (calls en
            [BeginComputePass commandEncoder,
             SetPipeline pl,
             SetBindGroup 0 downscaleBindGroup,
             DispatchWorkgroups (Math_ceil_div sw 8) (Math_ceil_div sh 8),
             PassEnd])
     (let bufferSize = sw * sh * 4 in
      bnd (getOrCreateResource (''readbackBuffer'' @ string_of_nat bufferSize)
             (createBuffer en bufferSize (GPUBufferUsage_COPY_DST OR GPUBufferUsage_MAP_READ)))
        (\<lambda>readbackBuffer.
      seq (calls en
             [CopyTextureToBuffer (Some (oid destTexture)) (oid readbackBuffer) (sw * 4) sw sh,
              QueueSubmit commandEncoder,
              MapAsync (oid readbackBuffer) GPUMapMode_READ,
              GetMappedRange (oid readbackBuffer),
              Unmap (oid readbackBuffer),
              SegmenterSegment sw sh])
      (case maskImageData en of (mw, mh) \<Rightarrow>
       bnd (getOrCreateTexture en ''maskTexture'' (mw, mh) dout
              (GPUTextureUsage_TEXTURE_BINDING OR GPUTextureUsage_COPY_DST
                 OR GPUTextureUsage_RENDER_ATTACHMENT)) (\<lambda>mask.
       seq (call en (WriteTexture (oid mask) (mw * 4) mw mh))
       (let processingWidth = or_default (displayWidth videoFrame) 1280;
            processingHeight = or_default (displayHeight videoFrame) 720 in
        bnd (gets (\<lambda>s. canvas_width s \<noteq> processingWidth
                        \<or> canvas_height s \<noteq> processingHeight)) (\<lambda>resized.
        seq (if resized
             then seq (modify (\<lambda>s. s\<lparr>canvas_width := processingWidth,
                                      canvas_height := processingHeight\<rparr>))
                  (throw (ReferenceError ''context is not defined''))
             else return_js ())
        (bnd (create en GetCurrentTexture) (\<lambda>canvasTexture.
         bnd (getOrCreateTexture en ''outputTexture'' (width, height) dout
                (GPUTextureUsage_STORAGE_BINDING OR GPUTextureUsage_COPY_SRC
                   OR GPUTextureUsage_TEXTURE_BINDING)) (\<lambda>outputTexture.
         bnd (create en CreateCommandEncoder) (\<lambda>commandEncoder2.
         seq (call en (SetInputDimensions processingWidth processingHeight))
         (seq (call en (Blur commandEncoder2 (oid sourceTexture) (oid mask)
                 (if dout then canvasTexture else oid outputTexture) 360))
         (seq (if \<not> dout
               then
                 bnd (getOrCreateResource
                        (''renderPipeline_'' @ string_of_nat width @ ''x'' @ string_of_nat height)
                        (createRenderPipeline en width height)) (\<lambda>renderPipeline.
                 bnd (gets renderSampler) (\<lambda>rsampler.
                 bnd (createBindGroup en (oid renderPipeline)
                        [(0, View (oid outputTexture)), (1, Object rsampler)])
                   (\<lambda>renderBindGroup.
                 calls en
                   [BeginRenderPass commandEncoder2
                      [\<lparr> view = View canvasTexture, clearValue = (0, 0, 0, 1),
                         loadOp = ''clear'', storeOp = ''store'' \<rparr>],
                    SetPipeline (oid renderPipeline),
                    SetBindGroup 0 (Some renderBindGroup),
                    Draw 6,
                    PassEnd])))
               else return_js ())
         (seq (call en (QueueSubmit commandEncoder2))
         (bnd (gets canvas_width) (\<lambda>cw.
          bnd (gets canvas_height) (\<lambda>ch.
          new_VideoFrame en cw ch (timestamp videoFrame) (duration videoFrame)))))))))))))))))))))))))))))"

subsection \<open>Construction and the returned \<^verbatim>\<open>render\<close>\<close>

text \<open>The variables the returned \<^verbatim>\<open>render\<close> closes over.\<close>

definition closure_variables :: "bool \<Rightarrow> bool \<Rightarrow> closure" where
  "closure_variables zc dout =
     \<lparr> next_id = 5,
       resourceCache = Map.empty,
       canvas_width = 1280,
       canvas_height = 720,
       zeroCopy = zc,
       directOutput = dout,
       segmentationWidth = 256,
       segmentationHeight = 144,
       downscaleSampler = 0,
       downscalePipeline = 2,
       outputRendererVertexShader = 3,
       outputRendererFragmentShader = None,
       renderSampler = 4,
       lastDimString = None \<rparr>"

definition createWebGPUBlurRenderer :: "env \<Rightarrow> bool \<Rightarrow> bool \<Rightarrow> js_error + closure" where
  "createWebGPUBlurRenderer en zc dout =
     (if \<not> adapterAvailable en then Inl (Error ''WebGPU adapter not available'')
      else if \<not> contextAvailable en then Inl (Error ''WebGPU context not available'')
      else Inr (closure_variables zc dout))"

definition render :: "env \<Rightarrow> videoframe \<Rightarrow> (closure, videoframe option) js" where
  "render en videoFrame =
     try_catch
       (bnd (renderWithWebGPU en videoFrame) (\<lambda>processedVideoFrame.
        return_js (Some processedVideoFrame)))
       (\<lambda>error. seq (emit (ConsoleWarn ''WebGPU rendering failed:'' error)) (return_js None))"

section \<open>Notions used in the statements\<close>

subsection \<open>Classes of events\<close>

text \<open>The calls that make up the skeleton of a frame.\<close>

definition pass_event :: "event \<Rightarrow> bool" where
  "pass_event e = (case e of
      DispatchWorkgroups x y \<Rightarrow> True
    | GetCurrentTexture i \<Rightarrow> True
    | SetInputDimensions w h \<Rightarrow> True
    | Blur c a b d k \<Rightarrow> True
    | BeginRenderPass c a \<Rightarrow> True
    | Draw n \<Rightarrow> True
    | _ \<Rightarrow> False)"

definition draw_event :: "event \<Rightarrow> bool" where
  "draw_event e = (case e of BeginRenderPass c a \<Rightarrow> True | Draw n \<Rightarrow> True | _ \<Rightarrow> False)"

definition blur_event :: "event \<Rightarrow> bool" where
  "blur_event e = (case e of SetInputDimensions w h \<Rightarrow> True | Blur c a b d k \<Rightarrow> True | _ \<Rightarrow> False)"

definition dispatch_event :: "event \<Rightarrow> bool" where
  "dispatch_event e = (case e of DispatchWorkgroups x y \<Rightarrow> True | _ \<Rightarrow> False)"

text \<open>The calls of the CPU readback path and those of the GPU-native path.\<close>

definition readback_event :: "event \<Rightarrow> bool" where
  "readback_event e = (case e of
      CopyTextureToBuffer t b r w h \<Rightarrow> True
    | MapAsync b m \<Rightarrow> True
    | GetMappedRange b \<Rightarrow> True
    | Unmap b \<Rightarrow> True
    | SegmenterSegment w h \<Rightarrow> True
    | _ \<Rightarrow> False)"

definition interop_event :: "event \<Rightarrow> bool" where
  "interop_event e = (case e of
      GetInputBuffer b \<Rightarrow> True
    | SegmentGPUBuffer \<Rightarrow> True
    | GetOutputBuffer b \<Rightarrow> True
    | CopyBufferToTexture b r t w h \<Rightarrow> True
    | _ \<Rightarrow> False)"

definition path_event :: "event \<Rightarrow> bool" where
  "path_event e = (readback_event e \<or> interop_event e)"

definition bind_group_event :: "event \<Rightarrow> bool" where
  "bind_group_event e = (case e of CreateBindGroup i p l \<Rightarrow> True | _ \<Rightarrow> False)"

definition texture_destroy_event :: "event \<Rightarrow> bool" where
  "texture_destroy_event e = (case e of TextureDestroy i \<Rightarrow> True | _ \<Rightarrow> False)"

text \<open>The calls that construct a resource the cache keeps.\<close>

definition allocation_event :: "event \<Rightarrow> bool" where
  "allocation_event e = (case e of
      CreateTexture i w h f u \<Rightarrow> True
    | CreateBuffer i n u \<Rightarrow> True
    | CreateRenderPipeline i v f t \<Rightarrow> True
    | CreateShaderModule i u l \<Rightarrow> True
    | _ \<Rightarrow> False)"

subsection \<open>Properties of computations\<close>

text \<open>Every event a computation records satisfies \<open>P\<close>, whatever the state and the outcome.\<close>

definition emits :: "(event \<Rightarrow> bool) \<Rightarrow> ('s, 'a) js \<Rightarrow> bool" where
  "emits P m = (\<forall>s. \<forall>e \<in> set (snd (snd (m s))). P e)"

text \<open>A computation maintains \<open>I\<close>, whatever the outcome.\<close>

definition maintains :: "('s \<Rightarrow> bool) \<Rightarrow> ('s, 'a) js \<Rightarrow> bool" where
  "maintains I m = (\<forall>s. I s \<longrightarrow> I (fst (snd (m s))))"

definition keeps :: "('s \<Rightarrow> 'k) \<Rightarrow> ('s, 'a) js \<Rightarrow> bool" where
  "keeps g m = (\<forall>k. maintains (\<lambda>s. g s = k) m)"

text \<open>A computation maintains \<open>I\<close> and, started where \<open>I\<close> holds, records only events in \<open>P\<close>.\<close>

definition quiet :: "('s \<Rightarrow> bool) \<Rightarrow> (event \<Rightarrow> bool) \<Rightarrow> ('s, 'a) js \<Rightarrow> bool" where
  "quiet I P m = (\<forall>s. I s \<longrightarrow> I (fst (snd (m s))) \<and> (\<forall>e \<in> set (snd (snd (m s))). P e))"

text \<open>
  Every exception a computation ends with was thrown by a collaborator call it recorded,
  unless it started in a state where \<open>A\<close> holds.
\<close>

definition blames :: "env \<Rightarrow> ('s \<Rightarrow> bool) \<Rightarrow> ('s, 'a) js \<Rightarrow> bool" where
  "blames en A m =
     (\<forall>s e s' evs. m s = (Inl e, s', evs) \<longrightarrow> (\<exists>ev \<in> set evs. raises en ev = Some e) \<or> A s)"

text \<open>The fields no frame changes.\<close>

definition config ::
  "'z pipeline_scheme \<Rightarrow> bool \<times> bool \<times> nat \<times> nat \<times> obj \<times> obj \<times> obj \<times> obj" where
  "config s = (zeroCopy s, directOutput s, segmentationWidth s, segmentationHeight s,
     downscaleSampler s, downscalePipeline s, outputRendererVertexShader s, renderSampler s)"

definition class_config :: "renderer \<Rightarrow> segmenter_flags \<times> string" where
  "class_config s = (segmenter s, format s)"

definition canvas :: "'z pipeline_scheme \<Rightarrow> nat \<times> nat" where
  "canvas s = (canvas_width s, canvas_height s)"

definition class_fixed ::
  "renderer \<Rightarrow> (bool \<times> bool \<times> nat \<times> nat \<times> obj \<times> obj \<times> obj \<times> obj)
     \<times> (segmenter_flags \<times> string) \<times> (nat \<times> nat) \<times> gpu_object option" where
  "class_fixed s = (config s, class_config s, canvas s, maskTexture s)"

subsection \<open>The cache\<close>

text \<open>The names textures are cached under, in either renderer.\<close>

definition texture_names :: "string set" where
  "texture_names =
     {''sourceTexture'', ''downscaledTexture'', ''downscaleDest'', ''maskTexture'', ''outputTexture''}"

text \<open>Every texture cached under a key has the size written in the key.\<close>

definition cache_ok :: "(string \<rightharpoonup> gpu_object) \<Rightarrow> bool" where
  "cache_ok c = (\<forall>key \<in> texture_names. \<forall>w h f u t.
      c (textureCacheKey key w h f u) = Some t \<longrightarrow> width_of t = Some w \<and> height_of t = Some h)"

text \<open>Every entry of \<open>c\<close> is an entry of \<open>c'\<close>, with the same object.\<close>

definition cache_extends :: "(string \<rightharpoonup> gpu_object) \<Rightarrow> (string \<rightharpoonup> gpu_object) \<Rightarrow> bool" where
  "cache_extends c c' = (\<forall>k t. c k = Some t \<longrightarrow> c' k = Some t)"

text \<open>The value of a decimal digit and of a decimal text.\<close>

definition digit_val :: "char \<Rightarrow> nat" where
  "digit_val c = length (takeWhile (\<lambda>d. d \<noteq> c) ''0123456789'')"

definition nat_of_string :: "string \<Rightarrow> nat" where
  "nat_of_string cs = foldl (\<lambda>a c. 10 * a + digit_val c) 0 cs"

text \<open>The cache is well-formed and still holds every entry of \<open>c\<close>.\<close>

definition cache_inv :: "(string \<rightharpoonup> gpu_object) \<Rightarrow> 'z pipeline_scheme \<Rightarrow> bool" where
  "cache_inv c s = (cache_ok (resourceCache s) \<and> cache_extends c (resourceCache s))"

text \<open>
  What \<^verbatim>\<open>segment\<close> needs to run without allocating: the mask texture on the GPU-native
  path; the downscale texture, the readback buffer and a mask texture of the size the
  segmenter reports on the CPU path.
\<close>

definition segment_warm :: "nat \<times> nat \<Rightarrow> renderer \<Rightarrow> bool" where
  "segment_warm md s =
     (if useInterop s
      then maskTexture s \<noteq> None
      else resourceCache s (textureCacheKey ''downscaledTexture'' (segmentationWidth s)
               (segmentationHeight s) (format s)
               (GPUTextureUsage_STORAGE_BINDING OR GPUTextureUsage_COPY_SRC
                  OR GPUTextureUsage_RENDER_ATTACHMENT)) \<noteq> None
         \<and> resourceCache s (''readbackBuffer'' @
               string_of_nat (segmentationWidth s * segmentationHeight s * 4)) \<noteq> None
         \<and> resourceCache s (textureCacheKey ''maskTexture'' (fst md) (snd md) (format s)
               (GPUTextureUsage_TEXTURE_BINDING OR GPUTextureUsage_COPY_DST
                  OR GPUTextureUsage_RENDER_ATTACHMENT)) \<noteq> None)"

abbreviation (input) never :: "'s \<Rightarrow> bool" where
  "never \<equiv> (\<lambda>_. False)"

subsection \<open>Inputs of the examples\<close>

definition quiet_env :: env where
  "quiet_env = \<lparr> raises = (\<lambda>_. None), preferredCanvasFormat = ''bgra8unorm'',
     maskImageData = (64, 36), adapterAvailable = True, contextAvailable = True \<rparr>"

text \<open>An environment in which the CPU segmenter throws.\<close>

definition failing_env :: env where
  "failing_env = quiet_env\<lparr> raises :=
     (\<lambda>ev. case ev of SegmenterSegment w h \<Rightarrow> Some (Exception ''inference failed'')
           | _ \<Rightarrow> None) \<rparr>"

definition cpu_segmenter :: segmenter_flags where
  "cpu_segmenter = \<lparr> segmentGPUBuffer = False, deviceType = ''cpu'' \<rparr>"

definition gpu_segmenter :: segmenter_flags where
  "gpu_segmenter = \<lparr> segmentGPUBuffer = True, deviceType = ''gpu'' \<rparr>"

definition frame_720 :: videoframe where
  "frame_720 = \<lparr> displayWidth = 1280, displayHeight = 720, timestamp = 0, duration = Some 33333 \<rparr>"

definition frame_no_duration :: videoframe where
  "frame_no_duration = \<lparr> displayWidth = 1280, displayHeight = 720, timestamp = 66666, duration = None \<rparr>"

definition frame_1080 :: videoframe where
  "frame_1080 = \<lparr> displayWidth = 1920, displayHeight = 1080, timestamp = 33333, duration = Some 33333 \<rparr>"


section \<open>Running computations\<close>

lemma return_js_apply: "return_js x s = (Inr x, s, [])" by (simp add: return_js_def)
lemma gets_apply: "gets g s = (Inr (g s), s, [])" by (simp add: gets_def)
lemma modify_apply: "modify g s = (Inr (), g s, [])" by (simp add: modify_def)
lemma throw_apply: "throw e s = (Inl e, s, [])" by (simp add: throw_def)
lemma emit_apply: "emit ev s = (Inr (), s, [ev])" by (simp add: emit_def)

lemmas js_apply = return_js_apply gets_apply modify_apply throw_apply emit_apply

lemma bnd_InrE:
  assumes "bnd m f s = (Inr v, s', evs)"
  obtains x s1 e1 e2 where "m s = (Inr x, s1, e1)" "f x s1 = (Inr v, s', e2)" "evs = e1 @ e2"
  using assms by (auto simp: bnd_def split: prod.splits sum.splits)

lemma seq_InrE:
  assumes "seq m n s = (Inr v, s', evs)"
  obtains s1 e1 e2 where "m s = (Inr (), s1, e1)" "n s1 = (Inr v, s', e2)" "evs = e1 @ e2"
  using assms unfolding seq_def by (auto elim!: bnd_InrE)

lemma bnd_cases:
  assumes "bnd m f s = (r, s', evs)"
  obtains (fail) e where "m s = (Inl e, s', evs)" "r = Inl e"
  | (ok) x s1 e1 e2 where "m s = (Inr x, s1, e1)" "f x s1 = (r, s', e2)" "evs = e1 @ e2"
  using assms by (auto simp: bnd_def split: prod.splits sum.splits)

lemma seq_cases:
  assumes "seq m n s = (r, s', evs)"
  obtains (fail) e where "m s = (Inl e, s', evs)" "r = Inl e"
  | (ok) s1 e1 e2 where "m s = (Inr (), s1, e1)" "n s1 = (r, s', e2)" "evs = e1 @ e2"
  using assms unfolding seq_def by (auto elim!: bnd_cases)

lemma call_InrD:
  "call en ev s = (Inr x, s', evs) \<Longrightarrow> raises en ev = None \<and> s' = s \<and> evs = [ev]"
  by (auto simp: call_def split: option.splits)

lemma call_InlD:
  "call en ev s = (Inl e, s', evs) \<Longrightarrow> raises en ev = Some e \<and> s' = s \<and> evs = [ev]"
  by (auto simp: call_def split: option.splits)

lemma call_quiet: "raises en ev = None \<Longrightarrow> call en ev s = (Inr (), s, [ev])"
  by (simp add: call_def)

lemma calls_InrD: "calls en es s = (Inr x, s', evs) \<Longrightarrow> s' = s \<and> evs = es"
  by (induction es arbitrary: evs)
     (auto simp: return_js_apply elim!: seq_InrE dest!: call_InrD)

lemma create_InrD:
  "create en mk s = (Inr i, s', evs) \<Longrightarrow>
   i = next_id s \<and> s' = s\<lparr>next_id := Suc (next_id s)\<rparr> \<and> evs = [mk i]
   \<and> raises en (mk i) = None"
  by (auto simp: create_def fresh_def return_js_apply elim!: bnd_InrE seq_InrE dest!: call_InrD)

lemma create_InlD:
  "create en mk s = (Inl e, s', evs) \<Longrightarrow>
   s' = s\<lparr>next_id := Suc (next_id s)\<rparr> \<and> evs = [mk (next_id s)]
   \<and> raises en (mk (next_id s)) = Some e"
  by (auto simp: create_def fresh_def return_js_apply seq_def bnd_def call_def
      split: option.splits)

lemma create_quiet:
  "raises en (mk (next_id s)) = None \<Longrightarrow>
   create en mk s = (Inr (next_id s), s\<lparr>next_id := Suc (next_id s)\<rparr>, [mk (next_id s)])"
  by (simp add: create_def fresh_def return_js_apply seq_def bnd_def call_def)

lemma createBindGroup_InrD:
  "createBindGroup en pl l s = (Inr i, s', evs) \<Longrightarrow>
   i = next_id s \<and> s' = s\<lparr>next_id := Suc (next_id s)\<rparr> \<and> evs = [CreateBindGroup i pl l]
   \<and> raises en (CreateBindGroup i pl l) = None \<and> Undefined \<notin> snd ` set l"
  by (auto simp: createBindGroup_def fresh_def js_apply
      elim!: bnd_InrE seq_InrE dest!: call_InrD split: if_splits)

lemma createBindGroup_undefined:
  "Undefined \<in> snd ` set l \<Longrightarrow>
   createBindGroup en pl l s =
     (Inl (TypeError ''GPUBindGroupEntry.resource is required''),
      s\<lparr>next_id := Suc (next_id s)\<rparr>, [CreateBindGroup (next_id s) pl l])"
  by (simp add: createBindGroup_def fresh_def bnd_def seq_def emit_def throw_def)

lemma new_VideoFrame_InrD:
  "new_VideoFrame en w h ts d s = (Inr out, s', evs) \<Longrightarrow>
   out = \<lparr> displayWidth = w, displayHeight = h, timestamp = ts,
            duration = Some (case d of None \<Rightarrow> 0 | Some n \<Rightarrow> n) \<rparr>
   \<and> s' = s \<and> evs = [NewVideoFrame w h ts d] \<and> raises en (NewVideoFrame w h ts d) = None"
  by (auto simp: new_VideoFrame_def js_apply elim!: seq_InrE dest!: call_InrD)

section \<open>Events of a computation\<close>

lemma emitsD: "emits P m \<Longrightarrow> m s = (r, s', evs) \<Longrightarrow> \<forall>e \<in> set evs. P e"
  by (auto simp: emits_def dest!: spec[of _ s])

lemma emits_filter: "emits (\<lambda>e. \<not> Q e) m \<Longrightarrow> m s = (r, s', evs) \<Longrightarrow> filter Q evs = []"
  by (auto simp: emits_def filter_empty_conv dest!: spec[of _ s])

lemma emits_bnd:
  assumes "emits P m" "\<And>x. emits P (f x)"
  shows "emits P (bnd m f)"
proof -
  have "\<forall>e \<in> set (snd (snd (bnd m f s))). P e" for s
  proof -
    obtain r s1 e1 where ms: "m s = (r, s1, e1)" by (cases "m s") auto
    have p1: "\<forall>e \<in> set e1. P e" using assms(1) ms by (rule emitsD)
    show ?thesis
    proof (cases r)
      case (Inl e)
      then show ?thesis using ms p1 by (simp add: bnd_def)
    next
      case (Inr x)
      obtain r2 s2 e2 where fs: "f x s1 = (r2, s2, e2)" by (cases "f x s1") auto
      have "\<forall>e \<in> set e2. P e" using assms(2) fs by (rule emitsD)
      then show ?thesis using ms p1 Inr fs by (auto simp add: bnd_def)
    qed
  qed
  then show ?thesis by (simp add: emits_def)
qed

lemma emits_seq: "emits P m \<Longrightarrow> emits P n \<Longrightarrow> emits P (seq m n)"
  unfolding seq_def by (rule emits_bnd)

lemma emits_try_catch:
  assumes "emits P m" "\<And>x. emits P (h x)"
  shows "emits P (try_catch m h)"
proof -
  have "\<forall>e \<in> set (snd (snd (try_catch m h s))). P e" for s
  proof -
    obtain r s1 e1 where ms: "m s = (r, s1, e1)" by (cases "m s") auto
    have p1: "\<forall>e \<in> set e1. P e" using assms(1) ms by (rule emitsD)
    show ?thesis
    proof (cases r)
      case (Inr x)
      then show ?thesis using ms p1 by (simp add: try_catch_def)
    next
      case (Inl x)
      obtain r2 s2 e2 where fs: "h x s1 = (r2, s2, e2)" by (cases "h x s1") auto
      have "\<forall>e \<in> set e2. P e" using assms(2) fs by (rule emitsD)
      then show ?thesis using ms p1 Inl fs by (auto simp add: try_catch_def)
    qed
  qed
  then show ?thesis by (simp add: emits_def)
qed

lemma emits_call: "P ev \<Longrightarrow> emits P (call en ev)"
  by (auto simp: emits_def call_def split: option.splits)

lemma emits_emit: "P ev \<Longrightarrow> emits P (emit ev)"
  by (auto simp: emits_def emit_def)

lemma emits_return: "emits P (return_js x)" by (simp add: emits_def return_js_def)
lemma emits_gets: "emits P (gets g)" by (simp add: emits_def gets_def)
lemma emits_modify: "emits P (modify g)" by (simp add: emits_def modify_def)
lemma emits_throw: "emits P (throw e)" by (simp add: emits_def throw_def)
lemma emits_fresh: "emits P fresh" by (simp add: emits_def fresh_def)

lemma emits_calls: "(\<forall>e \<in> set es. P e) \<Longrightarrow> emits P (calls en es)"
  by (induction es) (auto intro!: emits_seq emits_call emits_return)

lemma emits_create: "(\<And>i. P (mk i)) \<Longrightarrow> emits P (create en mk)"
  unfolding create_def by (intro emits_bnd emits_seq emits_call emits_return emits_fresh)

lemma emits_createBindGroup:
  "(\<And>i. P (CreateBindGroup i pl l)) \<Longrightarrow> emits P (createBindGroup en pl l)"
  unfolding createBindGroup_def
  by (intro emits_bnd emits_seq emits_call emits_emit emits_return emits_throw emits_fresh)
     (auto intro!: emits_seq emits_call emits_emit emits_return emits_throw)

lemma emits_new_VideoFrame:
  "P (NewVideoFrame w h ts d) \<Longrightarrow> emits P (new_VideoFrame en w h ts d)"
  unfolding new_VideoFrame_def by (intro emits_seq emits_call emits_return)

lemma emits_if: "(c \<Longrightarrow> emits P a) \<Longrightarrow> (\<not> c \<Longrightarrow> emits P b) \<Longrightarrow> emits P (if c then a else b)"
  by simp

lemma emits_case_option:
  "(x = None \<Longrightarrow> emits P a) \<Longrightarrow> (\<And>y. x = Some y \<Longrightarrow> emits P (b y))
   \<Longrightarrow> emits P (case x of None \<Rightarrow> a | Some y \<Rightarrow> b y)"
  by (cases x) auto

lemma emits_case_prod:
  "(\<And>a b. x = (a, b) \<Longrightarrow> emits P (f a b)) \<Longrightarrow> emits P (case x of (a, b) \<Rightarrow> f a b)"
  by (cases x) auto

lemmas emits_intros = emits_bnd emits_seq emits_try_catch emits_call emits_emit emits_return
  emits_gets emits_modify emits_throw emits_fresh emits_calls emits_create
  emits_createBindGroup emits_new_VideoFrame emits_if
  emits_case_option emits_case_prod

section \<open>Invariants of a computation\<close>

lemma maintainsD: "maintains I m \<Longrightarrow> m s = (r, s', evs) \<Longrightarrow> I s \<Longrightarrow> I s'"
  by (auto simp: maintains_def dest!: spec[of _ s])

lemma maintains_bnd:
  assumes "maintains I m" "\<And>x. maintains I (f x)"
  shows "maintains I (bnd m f)"
proof -
  have "I (fst (snd (bnd m f s)))" if "I s" for s
  proof -
    obtain r s1 e1 where ms: "m s = (r, s1, e1)" by (cases "m s") auto
    have p1: "I s1" using assms(1) ms that by (rule maintainsD)
    show ?thesis
    proof (cases r)
      case (Inl e)
      then show ?thesis using ms p1 by (simp add: bnd_def)
    next
      case (Inr x)
      obtain r2 s2 e2 where fs: "f x s1 = (r2, s2, e2)" by (cases "f x s1") auto
      have "I s2" using assms(2) fs p1 by (rule maintainsD)
      then show ?thesis using ms Inr fs by (auto simp add: bnd_def)
    qed
  qed
  then show ?thesis by (simp add: maintains_def)
qed

lemma maintains_seq: "maintains I m \<Longrightarrow> maintains I n \<Longrightarrow> maintains I (seq m n)"
  unfolding seq_def by (rule maintains_bnd)

lemma maintains_try_catch:
  assumes "maintains I m" "\<And>x. maintains I (h x)"
  shows "maintains I (try_catch m h)"
proof -
  have "I (fst (snd (try_catch m h s)))" if "I s" for s
  proof -
    obtain r s1 e1 where ms: "m s = (r, s1, e1)" by (cases "m s") auto
    have p1: "I s1" using assms(1) ms that by (rule maintainsD)
    show ?thesis
    proof (cases r)
      case (Inr x)
      then show ?thesis using ms p1 by (simp add: try_catch_def)
    next
      case (Inl x)
      obtain r2 s2 e2 where fs: "h x s1 = (r2, s2, e2)" by (cases "h x s1") auto
      have "I s2" using assms(2) fs p1 by (rule maintainsD)
      then show ?thesis using ms Inl fs by (auto simp add: try_catch_def)
    qed
  qed
  then show ?thesis by (simp add: maintains_def)
qed

lemma maintains_call: "maintains I (call en ev)"
  by (auto simp: maintains_def call_def split: option.splits)
lemma maintains_emit: "maintains I (emit ev)" by (simp add: maintains_def emit_def)
lemma maintains_return: "maintains I (return_js x)" by (simp add: maintains_def return_js_def)
lemma maintains_gets: "maintains I (gets g)" by (simp add: maintains_def gets_def)
lemma maintains_throw: "maintains I (throw e)" by (simp add: maintains_def throw_def)
lemma maintains_modify: "(\<And>s. I s \<Longrightarrow> I (g s)) \<Longrightarrow> maintains I (modify g)"
  by (simp add: maintains_def modify_def)
lemma maintains_fresh:
  "(\<And>s. I s \<Longrightarrow> I (s\<lparr>next_id := Suc (next_id s)\<rparr>)) \<Longrightarrow> maintains I fresh"
  by (simp add: maintains_def fresh_def)
lemma maintains_calls: "maintains I (calls en es)"
  by (induction es) (auto intro!: maintains_seq maintains_call maintains_return)
lemma maintains_create:
  "(\<And>s. I s \<Longrightarrow> I (s\<lparr>next_id := Suc (next_id s)\<rparr>)) \<Longrightarrow> maintains I (create en mk)"
  unfolding create_def
  by (intro maintains_bnd maintains_seq maintains_call maintains_return maintains_fresh)
lemma maintains_createBindGroup:
  "(\<And>s. I s \<Longrightarrow> I (s\<lparr>next_id := Suc (next_id s)\<rparr>)) \<Longrightarrow>
   maintains I (createBindGroup en pl l)"
  unfolding createBindGroup_def
  by (intro maintains_bnd maintains_fresh)
     (auto intro!: maintains_seq maintains_call maintains_emit maintains_return maintains_throw)

lemma maintains_new_VideoFrame: "maintains I (new_VideoFrame en w h ts d)"
  unfolding new_VideoFrame_def by (intro maintains_seq maintains_call maintains_return)

lemma maintains_if:
  "(c \<Longrightarrow> maintains I a) \<Longrightarrow> (\<not> c \<Longrightarrow> maintains I b) \<Longrightarrow> maintains I (if c then a else b)"
  by simp
lemma maintains_case_option:
  "(x = None \<Longrightarrow> maintains I a) \<Longrightarrow> (\<And>y. x = Some y \<Longrightarrow> maintains I (b y))
   \<Longrightarrow> maintains I (case x of None \<Rightarrow> a | Some y \<Rightarrow> b y)"
  by (cases x) auto
lemma maintains_case_prod:
  "(\<And>a b. x = (a, b) \<Longrightarrow> maintains I (f a b)) \<Longrightarrow> maintains I (case x of (a, b) \<Rightarrow> f a b)"
  by (cases x) auto

lemmas maintains_intros = maintains_bnd maintains_seq maintains_try_catch maintains_call
  maintains_emit maintains_return maintains_gets maintains_throw maintains_modify
  maintains_fresh maintains_calls maintains_create maintains_createBindGroup
  maintains_new_VideoFrame maintains_if maintains_case_option
  maintains_case_prod

lemma keepsD: "keeps g m \<Longrightarrow> m s = (r, s', evs) \<Longrightarrow> g s' = g s"
  unfolding keeps_def by (blast dest: maintainsD)

lemma keeps_maintains: "keeps g m \<Longrightarrow> maintains (\<lambda>s. P (g s)) m"
  unfolding maintains_def
proof (intro allI impI)
  fix s assume k: "keeps g m" and p: "P (g s)"
  obtain r s' evs where ms: "m s = (r, s', evs)" by (cases "m s") auto
  from keepsD[OF k ms] p ms show "P (g (fst (snd (m s))))" by simp
qed

section \<open>Invariants and events together\<close>

lemma quietI: "maintains I m \<Longrightarrow> emits P m \<Longrightarrow> quiet I P m"
  by (simp add: quiet_def maintains_def emits_def)

lemma quietD:
  "quiet I P m \<Longrightarrow> m s = (r, s', evs) \<Longrightarrow> I s \<Longrightarrow> I s' \<and> (\<forall>e \<in> set evs. P e)"
  by (auto simp: quiet_def dest!: spec[of _ s])

lemma quiet_bnd:
  assumes "quiet I P m" "\<And>x. quiet I P (f x)"
  shows "quiet I P (bnd m f)"
proof -
  have "I (fst (snd (bnd m f s))) \<and> (\<forall>e \<in> set (snd (snd (bnd m f s))). P e)" if "I s" for s
  proof -
    obtain r s1 e1 where ms: "m s = (r, s1, e1)" by (cases "m s") auto
    have p1: "I s1 \<and> (\<forall>e \<in> set e1. P e)" using assms(1) ms that by (rule quietD)
    show ?thesis
    proof (cases r)
      case (Inl e)
      then show ?thesis using ms p1 by (simp add: bnd_def)
    next
      case (Inr x)
      obtain r2 s2 e2 where fs: "f x s1 = (r2, s2, e2)" by (cases "f x s1") auto
      have "I s2 \<and> (\<forall>e \<in> set e2. P e)" using assms(2) fs p1 by (blast dest: quietD)
      then show ?thesis using ms Inr fs p1 by (auto simp add: bnd_def)
    qed
  qed
  then show ?thesis by (simp add: quiet_def)
qed

lemma quiet_seq: "quiet I P m \<Longrightarrow> quiet I P n \<Longrightarrow> quiet I P (seq m n)"
  unfolding seq_def by (rule quiet_bnd)

lemma quiet_if:
  "(c \<Longrightarrow> quiet I P a) \<Longrightarrow> (\<not> c \<Longrightarrow> quiet I P b) \<Longrightarrow> quiet I P (if c then a else b)"
  by simp

lemma quiet_case_option:
  "(x = None \<Longrightarrow> quiet I P a) \<Longrightarrow> (\<And>y. x = Some y \<Longrightarrow> quiet I P (b y))
   \<Longrightarrow> quiet I P (case x of None \<Rightarrow> a | Some y \<Rightarrow> b y)"
  by (cases x) auto

lemma quiet_case_prod:
  "(\<And>a b. x = (a, b) \<Longrightarrow> quiet I P (f a b)) \<Longrightarrow> quiet I P (case x of (a, b) \<Rightarrow> f a b)"
  by (cases x) auto

section \<open>Where exceptions come from\<close>

lemma blamesD:
  "blames en A m \<Longrightarrow> m s = (Inl e, s', evs) \<Longrightarrow> (\<exists>ev \<in> set evs. raises en ev = Some e) \<or> A s"
  unfolding blames_def by blast

lemma blames_bnd_val:
  assumes m: "blames en A m"
    and a: "maintains (\<lambda>s. \<not> A s) m"
    and q: "\<And>s x s' evs. m s = (Inr x, s', evs) \<Longrightarrow> Q x"
    and f: "\<And>x. Q x \<Longrightarrow> blames en A (f x)"
  shows "blames en A (bnd m f)"
  unfolding blames_def
proof (intro allI impI)
  fix s e s' evs
  assume run: "bnd m f s = (Inl e, s', evs)"
  from run show "(\<exists>ev \<in> set evs. raises en ev = Some e) \<or> A s"
  proof (cases rule: bnd_cases)
    case (fail e')
    then show ?thesis using blamesD[OF m, of s e' s' evs] by simp
  next
    case (ok x s1 e1 e2)
    from q[OF ok(1)] have "blames en A (f x)" by (rule f)
    from blamesD[OF this ok(2)] show ?thesis
    proof
      assume "\<exists>ev \<in> set e2. raises en ev = Some e"
      then show ?thesis using ok(3) by auto
    next
      assume "A s1"
      then have "A s" using maintainsD[OF a ok(1)] by blast
      then show ?thesis ..
    qed
  qed
qed

lemma blames_bnd:
  "blames en A m \<Longrightarrow> maintains (\<lambda>s. \<not> A s) m \<Longrightarrow> (\<And>x. blames en A (f x))
   \<Longrightarrow> blames en A (bnd m f)"
  by (rule blames_bnd_val[where Q = "\<lambda>_. True"]) auto

lemma blames_seq:
  "blames en A m \<Longrightarrow> maintains (\<lambda>s. \<not> A s) m \<Longrightarrow> blames en A n \<Longrightarrow> blames en A (seq m n)"
  unfolding seq_def by (rule blames_bnd)

lemma blames_call: "blames en A (call en ev)"
  by (auto simp: blames_def call_def split: option.splits)
lemma blames_return: "blames en A (return_js x)" by (simp add: blames_def return_js_def)
lemma blames_gets: "blames en A (gets g)" by (simp add: blames_def gets_def)
lemma blames_modify: "blames en A (modify g)" by (simp add: blames_def modify_def)
lemma blames_emit: "blames en A (emit ev)" by (simp add: blames_def emit_def)
lemma blames_fresh: "blames en A fresh" by (simp add: blames_def fresh_def)

lemma blames_calls: "blames en A (calls en es)"
  by (induction es)
     (auto intro!: blames_seq blames_call blames_return maintains_call)

lemma blames_create: "blames en A (create en mk)"
  by (auto simp: blames_def dest!: create_InlD)

lemma createBindGroup_InlD:
  "createBindGroup en pl l s = (Inl e, s', evs) \<Longrightarrow>
   evs = [CreateBindGroup (next_id s) pl l] \<and>
   (if Undefined \<in> snd ` set l then e = TypeError ''GPUBindGroupEntry.resource is required''
    else raises en (CreateBindGroup (next_id s) pl l) = Some e)"
  by (auto simp: createBindGroup_def fresh_def bnd_def seq_def emit_def throw_def call_def
      return_js_def split: if_splits option.splits)

lemma blames_createBindGroup:
  "Undefined \<notin> snd ` set l \<Longrightarrow> blames en A (createBindGroup en pl l)"
  by (auto simp: blames_def dest!: createBindGroup_InlD)

lemma blames_new_VideoFrame: "blames en A (new_VideoFrame en w h ts d)"
  by (auto simp: blames_def new_VideoFrame_def seq_def bnd_def call_def return_js_def
      split: option.splits)

lemma blames_if:
  "(c \<Longrightarrow> blames en A a) \<Longrightarrow> (\<not> c \<Longrightarrow> blames en A b) \<Longrightarrow> blames en A (if c then a else b)"
  by simp
lemma blames_case_option:
  "(x = None \<Longrightarrow> blames en A a) \<Longrightarrow> (\<And>y. x = Some y \<Longrightarrow> blames en A (b y))
   \<Longrightarrow> blames en A (case x of None \<Rightarrow> a | Some y \<Rightarrow> b y)"
  by (cases x) auto
lemma blames_case_prod:
  "(\<And>a b. x = (a, b) \<Longrightarrow> blames en A (f a b)) \<Longrightarrow> blames en A (case x of (a, b) \<Rightarrow> f a b)"
  by (cases x) auto

lemma blames_try_catch:
  assumes "\<And>x. blames en (\<lambda>_. False) (h x)"
  shows "blames en A (try_catch m h)"
  unfolding blames_def
proof (intro allI impI)
  fix s e s' evs
  assume run: "try_catch m h s = (Inl e, s', evs)"
  obtain r s1 e1 where ms: "m s = (r, s1, e1)" by (cases "m s") auto
  show "(\<exists>ev \<in> set evs. raises en ev = Some e) \<or> A s"
  proof (cases r)
    case (Inr x)
    then show ?thesis using run ms by (simp add: try_catch_def)
  next
    case (Inl x)
    obtain r2 s2 e2 where hs: "h x s1 = (r2, s2, e2)" by (cases "h x s1") auto
    with run ms Inl have "h x s1 = (Inl e, s', e2)" "evs = e1 @ e2"
      by (auto simp: try_catch_def)
    with blamesD[OF assms, of x s1 e s' e2] show ?thesis by auto
  qed
qed

lemmas blames_intros = blames_bnd blames_seq blames_call blames_return blames_gets
  blames_modify blames_emit blames_fresh blames_calls blames_create blames_createBindGroup
  blames_new_VideoFrame blames_if
  blames_case_option blames_case_prod


section \<open>Decimal texts and cache keys\<close>

lemma less_10_cases:
  "(d::nat) < 10 \<Longrightarrow> d = 0 \<or> d = 1 \<or> d = 2 \<or> d = 3 \<or> d = 4 \<or> d = 5 \<or> d = 6 \<or> d = 7 \<or> d = 8 \<or> d = 9"
  by arith

lemma digit_val_digit: "d < 10 \<Longrightarrow> digit_val (digit d) = d"
  by (drule less_10_cases) (auto simp: digit_def digit_val_def)

lemma digit_in_digits: "d < 10 \<Longrightarrow> digit d \<in> set ''0123456789''"
  by (drule less_10_cases) (auto simp: digit_def)

lemma string_of_nat_digits: "set (string_of_nat n) \<subseteq> set ''0123456789''"
proof (induction n rule: string_of_nat.induct)
  case (1 n)
  show ?case
  proof (cases "n < 10")
    case True
    then show ?thesis using digit_in_digits[of n] by (subst string_of_nat.simps) simp
  next
    case False
    have "n mod 10 < 10" by simp
    from digit_in_digits[OF this] 1[OF False] False show ?thesis
      by (subst string_of_nat.simps) simp
  qed
qed

lemma nat_of_string_snoc: "nat_of_string (cs @ [c]) = 10 * nat_of_string cs + digit_val c"
  by (simp add: nat_of_string_def)

lemma nat_of_string_string_of_nat: "nat_of_string (string_of_nat n) = n"
proof (induction n rule: string_of_nat.induct)
  case (1 n)
  show ?case
  proof (cases "n < 10")
    case True
    then show ?thesis
      by (subst string_of_nat.simps) (simp add: nat_of_string_def digit_val_digit)
  next
    case False
    with 1 have "nat_of_string (string_of_nat (n div 10)) = n div 10" by simp
    with False show ?thesis
      by (subst string_of_nat.simps) (simp add: nat_of_string_snoc digit_val_digit)
  qed
qed

lemma string_of_nat_inj: "string_of_nat n = string_of_nat m \<Longrightarrow> n = m"
  by (metis nat_of_string_string_of_nat)

lemma split_at_separator:
  "\<lbrakk>x \<notin> set a; x \<notin> set a'; a @ x # r = a' @ x # r'\<rbrakk> \<Longrightarrow> a = a' \<and> r = r'"
proof (induction a arbitrary: a')
  case Nil
  then show ?case by (cases a') auto
next
  case (Cons c cs)
  then show ?case by (cases a') auto
qed

lemma x_not_digit: "CHR ''x'' \<notin> set (string_of_nat n)"
  using string_of_nat_digits[of n] by auto

lemma underscore_not_digit: "CHR ''_'' \<notin> set (string_of_nat n)"
  using string_of_nat_digits[of n] by auto

lemma size_part_inj:
  assumes "string_of_nat w @ ''x'' @ string_of_nat h @ ''_'' @ r
         = string_of_nat w' @ ''x'' @ string_of_nat h' @ ''_'' @ r'"
  shows "w = w' \<and> h = h'"
proof -
  from assms have "string_of_nat w @ CHR ''x'' # (string_of_nat h @ ''_'' @ r)
      = string_of_nat w' @ CHR ''x'' # (string_of_nat h' @ ''_'' @ r')" by simp
  from split_at_separator[OF x_not_digit x_not_digit this]
  have w: "string_of_nat w = string_of_nat w'"
    and rest: "string_of_nat h @ CHR ''_'' # r = string_of_nat h' @ CHR ''_'' # r'" by simp_all
  from split_at_separator[OF underscore_not_digit underscore_not_digit rest]
  have "string_of_nat h = string_of_nat h'" by simp
  with w show ?thesis by (blast dest: string_of_nat_inj)
qed

lemma textureCacheKey_size:
  assumes "key \<in> texture_names" "key' \<in> texture_names"
    and "textureCacheKey key w h f u = textureCacheKey key' w' h' f' u'"
  shows "key = key' \<and> w = w' \<and> h = h'"
proof -
  from assms have k: "key = key'"
    by (auto simp: texture_names_def textureCacheKey_def)
  with assms(3) have "string_of_nat w @ ''x'' @ string_of_nat h @ ''_'' @ (f @ ''_'' @ string_of_nat u)
      = string_of_nat w' @ ''x'' @ string_of_nat h' @ ''_'' @ (f' @ ''_'' @ string_of_nat u')"
    by (simp add: textureCacheKey_def)
  from size_part_inj[OF this] k show ?thesis by simp
qed

lemma resource_key [simp]:
  "key \<in> texture_names \<Longrightarrow> CHR ''r'' # cs \<noteq> textureCacheKey key w h f u"
  by (auto simp: texture_names_def textureCacheKey_def)

lemma cache_ok_empty: "cache_ok Map.empty"
  by (simp add: cache_ok_def)

lemma cache_ok_texture:
  assumes "cache_ok c" "key \<in> texture_names"
  shows "cache_ok (c(textureCacheKey key w h f u \<mapsto> GPUTexture i w h f' u'))"
  unfolding cache_ok_def
proof (intro ballI allI impI)
  fix k w1 h1 f1 u1 t
  assume k: "k \<in> texture_names"
    and l: "(c(textureCacheKey key w h f u \<mapsto> GPUTexture i w h f' u')) (textureCacheKey k w1 h1 f1 u1) = Some t"
  show "width_of t = Some w1 \<and> height_of t = Some h1"
  proof (cases "textureCacheKey k w1 h1 f1 u1 = textureCacheKey key w h f u")
    case True
    from textureCacheKey_size[OF k assms(2) True] l True show ?thesis by auto
  next
    case False
    with l assms(1) k show ?thesis by (auto simp: cache_ok_def)
  qed
qed

lemma cache_ok_other:
  assumes "cache_ok c" "\<And>key w h f u. key \<in> texture_names \<Longrightarrow> k \<noteq> textureCacheKey key w h f u"
  shows "cache_ok (c(k \<mapsto> r))"
  using assms unfolding cache_ok_def by (metis fun_upd_other)

lemma cache_ok_hit:
  "cache_ok c \<Longrightarrow> key \<in> texture_names \<Longrightarrow> c (textureCacheKey key w h f u) = Some t
   \<Longrightarrow> width_of t = Some w \<and> height_of t = Some h"
  unfolding cache_ok_def by blast

lemma cache_extends_refl: "cache_extends c c"
  by (simp add: cache_extends_def)

lemma cache_extends_trans: "cache_extends a b \<Longrightarrow> cache_extends b c \<Longrightarrow> cache_extends a c"
  by (simp add: cache_extends_def)

lemma cache_extends_fresh: "c k = None \<Longrightarrow> cache_extends c (c(k \<mapsto> r))"
  by (auto simp: cache_extends_def)


section \<open>The cache of the class\<close>

lemma class_goct_hit:
  "\<lbrakk>resourceCache s (textureCacheKey key w h (format s) u) = Some t;
    width_of t = Some w; height_of t = Some h\<rbrakk>
   \<Longrightarrow> WebGPURenderer_getOrCreateTexture en key (w, h) u s = (Inr t, s, [])"
  by (simp add: WebGPURenderer_getOrCreateTexture_def Let_def bnd_def gets_def return_js_def)

lemma class_goct_miss:
  "\<lbrakk>resourceCache s (textureCacheKey key w h (format s) u) = None;
    raises en (CreateTexture (next_id s) w h (format s) u) = None\<rbrakk>
   \<Longrightarrow> WebGPURenderer_getOrCreateTexture en key (w, h) u s =
       (Inr (GPUTexture (next_id s) w h (format s) u),
        s\<lparr>next_id := Suc (next_id s),
          resourceCache := (resourceCache s)(textureCacheKey key w h (format s) u \<mapsto>
             GPUTexture (next_id s) w h (format s) u)\<rparr>,
        [CreateTexture (next_id s) w h (format s) u])"
  by (simp add: WebGPURenderer_getOrCreateTexture_def createTexture_def Let_def bnd_def seq_def
      gets_def return_js_def modify_def create_def fresh_def call_def)

lemma class_goct_mismatch:
  "\<lbrakk>resourceCache s (textureCacheKey key w h (format s) u) = Some t;
    width_of t \<noteq> Some w \<or> height_of t \<noteq> Some h;
    raises en (TextureDestroy (oid t)) = None;
    raises en (CreateTexture (next_id s) w h (format s) u) = None\<rbrakk>
   \<Longrightarrow> WebGPURenderer_getOrCreateTexture en key (w, h) u s =
       (Inr (GPUTexture (next_id s) w h (format s) u),
        s\<lparr>next_id := Suc (next_id s),
          resourceCache := (resourceCache s)(textureCacheKey key w h (format s) u \<mapsto>
             GPUTexture (next_id s) w h (format s) u)\<rparr>,
        [TextureDestroy (oid t), CreateTexture (next_id s) w h (format s) u])"
  by (auto simp add: WebGPURenderer_getOrCreateTexture_def createTexture_def Let_def bnd_def seq_def
      gets_def return_js_def modify_def create_def fresh_def call_def)

lemma class_goct_Inr:
  assumes "WebGPURenderer_getOrCreateTexture en key (w, h) u s = (Inr t, s', evs)"
  shows "resourceCache s' (textureCacheKey key w h (format s) u) = Some t
       \<and> width_of t = Some w \<and> height_of t = Some h
       \<and> config s' = config s \<and> class_config s' = class_config s \<and> canvas s' = canvas s
       \<and> maskTexture s' = maskTexture s
       \<and> (key \<in> texture_names \<longrightarrow> cache_ok (resourceCache s) \<longrightarrow>
            cache_ok (resourceCache s') \<and> cache_extends (resourceCache s) (resourceCache s')
            \<and> filter texture_destroy_event evs = [])"
proof (cases "resourceCache s (textureCacheKey key w h (format s) u)")
  case None
  with assms show ?thesis
    by (auto simp: WebGPURenderer_getOrCreateTexture_def createTexture_def Let_def js_apply
        texture_destroy_event_def config_def class_config_def canvas_def
        elim!: bnd_InrE seq_InrE dest!: create_InrD
        intro!: cache_ok_texture cache_extends_fresh)
next
  case (Some t0)
  show ?thesis
  proof (cases "width_of t0 \<noteq> Some w \<or> height_of t0 \<noteq> Some h")
    case False
    with Some assms show ?thesis
      by (auto simp: class_goct_hit cache_extends_refl)
  next
    case True
    have bad: "key \<in> texture_names \<Longrightarrow> \<not> cache_ok (resourceCache s)"
      using cache_ok_hit[of "resourceCache s" key w h "format s" u t0] Some True by blast
    from assms Some True bad show ?thesis
      by (auto simp: WebGPURenderer_getOrCreateTexture_def createTexture_def Let_def js_apply
        config_def class_config_def canvas_def
        elim!: bnd_InrE seq_InrE dest!: create_InrD call_InrD)
  qed
qed

lemma class_gocr_hit:
  "resourceCache s key = Some r \<Longrightarrow> WebGPURenderer_getOrCreateResource key createFn s = (Inr r, s, [])"
  by (simp add: WebGPURenderer_getOrCreateResource_def bnd_def gets_def return_js_def)

lemma class_gocr_miss:
  "resourceCache s key = None \<Longrightarrow>
   WebGPURenderer_getOrCreateResource key createFn s =
     bnd createFn (\<lambda>r.
       seq (modify (\<lambda>s. s\<lparr>resourceCache := (resourceCache s)(key \<mapsto> r)\<rparr>)) (return_js r)) s"
  by (simp add: WebGPURenderer_getOrCreateResource_def bnd_def gets_def)

section \<open>What the parts of the class leave unchanged and what they record\<close>

lemma emits_createTexture:
  "(\<And>i. P (CreateTexture i w h f u)) \<Longrightarrow> emits P (createTexture en w h f u)"
  unfolding createTexture_def by (intro emits_intros)

lemma emits_createBuffer:
  "(\<And>i. P (CreateBuffer i n u)) \<Longrightarrow> emits P (createBuffer en n u)"
  unfolding createBuffer_def by (intro emits_intros)

lemma emits_class_goct:
  "(\<And>i w h f u. P (CreateTexture i w h f u)) \<Longrightarrow> (\<And>i. P (TextureDestroy i)) \<Longrightarrow>
   emits P (WebGPURenderer_getOrCreateTexture en key sz usage)"
  unfolding WebGPURenderer_getOrCreateTexture_def Let_def
  by (intro emits_intros emits_createTexture) auto

lemma emits_class_gocr:
  "emits P createFn \<Longrightarrow> emits P (WebGPURenderer_getOrCreateResource key createFn)"
  unfolding WebGPURenderer_getOrCreateResource_def
  by (intro emits_intros) auto

lemma emits_class_frag:
  "(\<And>u. P (Fetch u)) \<Longrightarrow> (\<And>i u l. P (CreateShaderModule i u l)) \<Longrightarrow>
   emits P (WebGPURenderer_getOutputRendererFragmentShader en w h)"
  unfolding WebGPURenderer_getOutputRendererFragmentShader_def
  by (intro emits_intros) auto

lemma emits_class_crp:
  "(\<And>u. P (Fetch u)) \<Longrightarrow> (\<And>i u l. P (CreateShaderModule i u l)) \<Longrightarrow>
   (\<And>i v f fm. P (CreateRenderPipeline i v f fm)) \<Longrightarrow>
   emits P (WebGPURenderer_createRenderPipeline en w h)"
  unfolding WebGPURenderer_createRenderPipeline_def
  by (intro emits_intros emits_class_frag) auto

lemma keeps_class_goct: "keeps class_fixed (WebGPURenderer_getOrCreateTexture en key sz usage)"
  unfolding keeps_def WebGPURenderer_getOrCreateTexture_def createTexture_def Let_def
  by (intro allI maintains_intros; simp add: class_fixed_def config_def class_config_def canvas_def)

lemma keeps_class_crp: "keeps class_fixed (WebGPURenderer_createRenderPipeline en w h)"
  unfolding keeps_def WebGPURenderer_createRenderPipeline_def
    WebGPURenderer_getOutputRendererFragmentShader_def
  by (intro allI maintains_intros; simp add: class_fixed_def config_def class_config_def canvas_def)

lemma keeps_class_pipeline:
  "keeps class_fixed
     (WebGPURenderer_getOrCreateResource key (WebGPURenderer_createRenderPipeline en w h))"
  unfolding keeps_def WebGPURenderer_getOrCreateResource_def
    WebGPURenderer_createRenderPipeline_def WebGPURenderer_getOutputRendererFragmentShader_def
  by (intro allI maintains_intros; simp add: class_fixed_def config_def class_config_def canvas_def)

lemma keeps_class_segment:
  "keeps (\<lambda>s. (config s, class_config s, canvas s)) (WebGPURenderer_segment en src)"
  unfolding keeps_def WebGPURenderer_segment_def WebGPURenderer_segment_body_def
    WebGPURenderer_segment_interop_def
    WebGPURenderer_segment_readback_def WebGPURenderer_getOrCreateResource_def
    WebGPURenderer_getOrCreateTexture_def createTexture_def createBuffer_def Let_def
  by (intro allI maintains_intros; simp add: config_def class_config_def canvas_def)


lemma cache_inv_next_id [simp]: "cache_inv c (s\<lparr>next_id := n\<rparr>) = cache_inv c s"
  by (simp add: cache_inv_def)

lemma no_destroy_simps [simp]:
  "\<not> texture_destroy_event (CreateTexture i w h f u)"
  "texture_destroy_event (TextureDestroy i)"
  by (simp_all add: texture_destroy_event_def)

lemma quiet_simple: "maintains I m \<Longrightarrow> emits P m \<Longrightarrow> quiet I P m"
  by (rule quietI)

lemma quiet_call: "P ev \<Longrightarrow> quiet I P (call en ev)"
  by (intro quietI maintains_call emits_call)
lemma quiet_calls: "\<forall>e \<in> set es. P e \<Longrightarrow> quiet I P (calls en es)"
  by (intro quietI maintains_calls emits_calls)
lemma quiet_gets: "quiet I P (gets g)"
  by (intro quietI maintains_gets emits_gets)
lemma quiet_return: "quiet I P (return_js x)"
  by (intro quietI maintains_return emits_return)
lemma quiet_throw: "quiet I P (throw x)"
  by (intro quietI maintains_throw emits_throw)
lemma quiet_emit: "P ev \<Longrightarrow> quiet I P (emit ev)"
  by (intro quietI maintains_emit emits_emit)
lemma quiet_modify: "(\<And>s. I s \<Longrightarrow> I (g s)) \<Longrightarrow> quiet I P (modify g)"
  by (intro quietI maintains_modify emits_modify)
lemma quiet_create:
  "(\<And>s. I s \<Longrightarrow> I (s\<lparr>next_id := Suc (next_id s)\<rparr>)) \<Longrightarrow> (\<And>i. P (mk i)) \<Longrightarrow> quiet I P (create en mk)"
  by (intro quietI maintains_create emits_create)

lemma quiet_createBindGroup:
  "(\<And>s. I s \<Longrightarrow> I (s\<lparr>next_id := Suc (next_id s)\<rparr>)) \<Longrightarrow>
   (\<And>i. P (CreateBindGroup i pl l)) \<Longrightarrow> quiet I P (createBindGroup en pl l)"
  by (intro quietI maintains_createBindGroup emits_createBindGroup)
lemma quiet_new_VideoFrame:
  "P (NewVideoFrame w h ts d) \<Longrightarrow> quiet I P (new_VideoFrame en w h ts d)"
  by (intro quietI maintains_new_VideoFrame emits_new_VideoFrame)

lemma quiet_try_catch:
  assumes "quiet I P m" "\<And>x. quiet I P (h x)"
  shows "quiet I P (try_catch m h)"
proof -
  have "I (fst (snd (try_catch m h s))) \<and> (\<forall>e \<in> set (snd (snd (try_catch m h s))). P e)"
    if "I s" for s
  proof -
    obtain r s1 e1 where ms: "m s = (r, s1, e1)" by (cases "m s") auto
    have p1: "I s1 \<and> (\<forall>e \<in> set e1. P e)" using assms(1) ms that by (rule quietD)
    show ?thesis
    proof (cases r)
      case (Inr x)
      then show ?thesis using ms p1 by (simp add: try_catch_def)
    next
      case (Inl x)
      obtain r2 s2 e2 where fs: "h x s1 = (r2, s2, e2)" by (cases "h x s1") auto
      have "I s2 \<and> (\<forall>e \<in> set e2. P e)" using assms(2) fs p1 by (blast dest: quietD)
      then show ?thesis using ms Inl fs p1 by (auto simp add: try_catch_def)
    qed
  qed
  then show ?thesis by (simp add: quiet_def)
qed

lemmas quiet_intros = quiet_bnd quiet_seq quiet_try_catch quiet_if quiet_case_option quiet_case_prod
  quiet_call quiet_calls quiet_gets quiet_return quiet_throw quiet_emit quiet_modify quiet_create
  quiet_createBindGroup quiet_new_VideoFrame

lemma class_goct_quiet:
  assumes "key \<in> texture_names"
  shows "quiet (cache_inv c) (\<lambda>e. \<not> texture_destroy_event e)
           (WebGPURenderer_getOrCreateTexture en key sz usage)"
  unfolding quiet_def
proof (intro allI impI)
  fix s :: renderer assume inv: "cache_inv c s"
  obtain w h where sz: "sz = (w, h)" by (cases sz)
  let ?k = "textureCacheKey key w h (format s) usage"
  show "cache_inv c (fst (snd (WebGPURenderer_getOrCreateTexture en key sz usage s))) \<and>
        (\<forall>e \<in> set (snd (snd (WebGPURenderer_getOrCreateTexture en key sz usage s))).
            \<not> texture_destroy_event e)"
  proof (cases "resourceCache s ?k")
    case None
    have "cache_extends c ((resourceCache s)(?k \<mapsto> GPUTexture (next_id s) w h (format s) usage))"
      using inv None cache_extends_fresh[of "resourceCache s" ?k]
      by (auto simp: cache_inv_def intro: cache_extends_trans)
    moreover have "cache_ok ((resourceCache s)(?k \<mapsto> GPUTexture (next_id s) w h (format s) usage))"
      using inv assms by (auto simp: cache_inv_def intro!: cache_ok_texture)
    ultimately show ?thesis using None inv sz
      by (cases "raises en (CreateTexture (next_id s) w h (format s) usage)")
         (auto simp: WebGPURenderer_getOrCreateTexture_def createTexture_def Let_def bnd_def seq_def
          gets_def return_js_def modify_def create_def fresh_def call_def cache_inv_def)
  next
    case (Some t)
    from inv have "cache_ok (resourceCache s)" by (simp add: cache_inv_def)
    from cache_ok_hit[of "resourceCache s" key w h "format s" usage t, OF this assms Some]
    have "width_of t = Some w" "height_of t = Some h" by simp_all
    with Some inv sz show ?thesis by (simp add: class_goct_hit)
  qed
qed

lemma class_gocr_quiet:
  assumes "quiet (cache_inv c) P createFn"
    and "\<And>key w h f u. key \<in> texture_names \<Longrightarrow> k \<noteq> textureCacheKey key w h f u"
  shows "quiet (cache_inv c) P (WebGPURenderer_getOrCreateResource k createFn)"
  unfolding quiet_def
proof (intro allI impI)
  fix s :: renderer assume inv: "cache_inv c s"
  show "cache_inv c (fst (snd (WebGPURenderer_getOrCreateResource k createFn s))) \<and>
        (\<forall>e \<in> set (snd (snd (WebGPURenderer_getOrCreateResource k createFn s))). P e)"
  proof (cases "resourceCache s k")
    case (Some r)
    with inv show ?thesis by (simp add: class_gocr_hit)
  next
    case None
    obtain r s1 e1 where run: "createFn s = (r, s1, e1)" by (cases "createFn s") auto
    from quietD[OF assms(1) run inv] have s1: "cache_inv c s1" and e1: "\<forall>e \<in> set e1. P e"
      by simp_all
    show ?thesis
    proof (cases r)
      case (Inl e)
      with None run s1 e1 show ?thesis by (simp add: class_gocr_miss bnd_def)
    next
      case (Inr x)
      have "cache_ok ((resourceCache s1)(k \<mapsto> x))"
        using s1 assms(2) by (intro cache_ok_other) (auto simp: cache_inv_def)
      moreover have "cache_extends c ((resourceCache s1)(k \<mapsto> x))"
      proof -
        have "c k = None" using inv None by (cases "c k") (auto simp: cache_inv_def cache_extends_def)
        then show ?thesis using s1 by (auto simp: cache_inv_def cache_extends_def)
      qed
      ultimately show ?thesis using None run e1 Inr
        by (simp add: class_gocr_miss bnd_def seq_def modify_def return_js_def cache_inv_def)
    qed
  qed
qed


lemma cache_inv_simps [simp]:
  "cache_inv c (s\<lparr>canvas_width := a\<rparr>) = cache_inv c s"
  "cache_inv c (s\<lparr>canvas_height := b\<rparr>) = cache_inv c s"
  "cache_inv c (s\<lparr>outputRendererFragmentShader := d\<rparr>) = cache_inv c s"
  by (simp_all add: cache_inv_def)

lemma cache_inv_class_simps [simp]:
  "cache_inv c (r\<lparr>maskTexture := e\<rparr>) = cache_inv c r"
  "cache_inv c (r\<lparr>lastDim := g\<rparr>) = cache_inv c r"
  by (simp_all add: cache_inv_def)

lemma quiet_createTexture:
  "(\<And>i. P (CreateTexture i w h f u)) \<Longrightarrow> quiet (cache_inv c) P (createTexture en w h f u)"
  unfolding createTexture_def by (intro quiet_intros) simp_all

lemma quiet_createBuffer:
  "(\<And>i. P (CreateBuffer i n u)) \<Longrightarrow> quiet (cache_inv c) P (createBuffer en n u)"
  unfolding createBuffer_def by (intro quiet_intros) simp_all

lemma texture_names_simps [simp]:
  "''sourceTexture'' \<in> texture_names" "''downscaledTexture'' \<in> texture_names"
  "''downscaleDest'' \<in> texture_names" "''maskTexture'' \<in> texture_names"
  "''outputTexture'' \<in> texture_names"
  by (simp_all add: texture_names_def)

lemma class_segment_quiet:
  "quiet (cache_inv c) (\<lambda>e. \<not> texture_destroy_event e) (WebGPURenderer_segment en src)"
  unfolding WebGPURenderer_segment_def WebGPURenderer_segment_body_def
    WebGPURenderer_segment_interop_def WebGPURenderer_segment_readback_def Let_def
  by (intro quiet_intros class_goct_quiet class_gocr_quiet quiet_createTexture quiet_createBuffer;
      simp add: texture_destroy_event_def)

lemma class_render_quiet:
  "quiet (cache_inv c) (\<lambda>e. \<not> texture_destroy_event e) (WebGPURenderer_render en f)"
  unfolding WebGPURenderer_render_def WebGPURenderer_createRenderPipeline_def
    WebGPURenderer_getOutputRendererFragmentShader_def Let_def
  by (intro quiet_intros class_goct_quiet class_gocr_quiet class_segment_quiet;
      simp add: texture_destroy_event_def)

section \<open>Exceptions of the class\<close>

lemma maintains_True [simp]: "maintains (\<lambda>s. True) m"
  by (simp add: maintains_def)

lemma blames_createTexture: "blames en never (createTexture en w h f u)"
  unfolding createTexture_def by (intro blames_intros; simp)

lemma blames_createBuffer: "blames en never (createBuffer en n u)"
  unfolding createBuffer_def by (intro blames_intros; simp)

lemma blames_class_goct: "blames en never (WebGPURenderer_getOrCreateTexture en key sz usage)"
  unfolding WebGPURenderer_getOrCreateTexture_def Let_def
  by (intro blames_intros blames_createTexture; simp)

lemma blames_class_gocr:
  "blames en never createFn \<Longrightarrow> blames en never (WebGPURenderer_getOrCreateResource key createFn)"
  unfolding WebGPURenderer_getOrCreateResource_def
  by (intro blames_intros; simp)

lemma blames_class_crp: "blames en never (WebGPURenderer_createRenderPipeline en w h)"
  unfolding WebGPURenderer_createRenderPipeline_def WebGPURenderer_getOutputRendererFragmentShader_def
  by (intro blames_intros; simp)

lemma blames_class_interop:
  "buffer dr \<noteq> None \<Longrightarrow> blames en never (WebGPURenderer_segment_interop en enc dr)"
  unfolding WebGPURenderer_segment_interop_def
  by (intro blames_intros blames_createTexture; auto)

lemma blames_class_readback: "blames en never (WebGPURenderer_segment_readback en enc dr)"
  unfolding WebGPURenderer_segment_readback_def Let_def
  by (intro blames_intros blames_class_goct blames_class_gocr blames_createBuffer; simp)

lemma blames_class_segment_body:
  "blames en never (WebGPURenderer_segment_body False en src enc)"
  unfolding WebGPURenderer_segment_body_def
  apply (rule blames_bnd_val[where Q = "\<lambda>dr. texture dr \<noteq> None"])
     apply (simp, intro blames_intros blames_class_goct; simp)
    apply simp
   apply (auto simp: js_apply elim!: bnd_InrE)[1]
  apply (intro blames_intros blames_class_readback; auto)
  done

lemma useInterop_next_id [simp]: "useInterop (s\<lparr>next_id := n\<rparr>) = useInterop s"
  by (simp add: useInterop_def)

lemma blames_class_segment: "blames en useInterop (WebGPURenderer_segment en src)"
  unfolding blames_def
proof (intro allI impI)
  fix s e s' evs
  assume run: "WebGPURenderer_segment en src s = (Inl e, s', evs)"
  show "(\<exists>ev \<in> set evs. raises en ev = Some e) \<or> useInterop s"
  proof (cases "useInterop s")
    case False
    have b: "blames en never (bnd (create en CreateCommandEncoder)
        (\<lambda>enc. WebGPURenderer_segment_body False en src enc))"
      by (intro blames_intros blames_class_segment_body; simp)
    have "WebGPURenderer_segment en src s =
        bnd (create en CreateCommandEncoder)
          (\<lambda>enc. WebGPURenderer_segment_body False en src enc) s"
      using False
      by (simp add: WebGPURenderer_segment_def bnd_def create_def fresh_def seq_def call_def
          return_js_def gets_def split: option.splits)
    with run blamesD[OF b, of s e s' evs] show ?thesis by simp
  qed simp
qed


section \<open>Evaluation at concrete inputs\<close>

lemmas js_eval = bnd_def seq_def call_def create_def fresh_def return_js_def gets_def modify_def
  throw_def emit_def try_catch_def Let_def string_of_nat.simps digit_def textureCacheKey_def
  createTexture_def createBuffer_def createBindGroup_def new_VideoFrame_def
  or_default_def Math_ceil_div_def useInterop_def
  GPUTextureUsage_COPY_SRC_def GPUTextureUsage_COPY_DST_def GPUTextureUsage_TEXTURE_BINDING_def
  GPUTextureUsage_STORAGE_BINDING_def GPUTextureUsage_RENDER_ATTACHMENT_def
  GPUBufferUsage_MAP_READ_def GPUBufferUsage_COPY_DST_def GPUMapMode_READ_def
  WebGPURenderer_fields_def WebGPURenderer_getOrCreateResource_def
  WebGPURenderer_getOrCreateTexture_def WebGPURenderer_getOutputRendererFragmentShader_def
  WebGPURenderer_createRenderPipeline_def WebGPURenderer_segment_interop_def
  WebGPURenderer_segment_readback_def WebGPURenderer_segment_body_def
  WebGPURenderer_segment_def WebGPURenderer_render_def packShaderUrl_def
  getTextureFormat_def getOrCreateResource_def getOrCreateTexture_def
  getOutputRendererFragmentShader_def createRenderPipeline_def renderWithWebGPU_def
  closure_variables_def render_def
  quiet_env_def failing_env_def cpu_segmenter_def gpu_segmenter_def
  frame_720_def frame_1080_def frame_no_duration_def

lemma try_catch_InrD:
  "try_catch m h s = (Inr v, s', evs) \<Longrightarrow>
   m s = (Inr v, s', evs) \<or>
   (\<exists>e s1 e1 e2. m s = (Inl e, s1, e1) \<and> h e s1 = (Inr v, s', e2) \<and> evs = e1 @ e2)"
  by (auto simp: try_catch_def split: prod.splits sum.splits)

section \<open>The frame handed back\<close>

text \<open>
  What a successful call hands back: the incoming timestamp, and the incoming duration
  when there is one; a frame without duration comes back with the duration 0.
\<close>

lemma class_render_metadata:
  "WebGPURenderer_render en f s = (Inr out, s', evs) \<Longrightarrow>
   timestamp out = timestamp f
   \<and> duration out = Some (case duration f of None \<Rightarrow> 0 | Some d \<Rightarrow> d)"
  unfolding WebGPURenderer_render_def Let_def
  by (auto elim!: bnd_InrE seq_InrE dest!: new_VideoFrame_InrD)

lemma renderWithWebGPU_metadata:
  "renderWithWebGPU en f c = (Inr out, c', evs) \<Longrightarrow>
   timestamp out = timestamp f
   \<and> duration out = Some (case duration f of None \<Rightarrow> 0 | Some d \<Rightarrow> d)"
  unfolding renderWithWebGPU_def Let_def
  by (auto elim!: bnd_InrE seq_InrE dest!: new_VideoFrame_InrD split: prod.splits)

lemma render_metadata:
  assumes "render en f c = (Inr (Some out), c', evs)"
  shows "timestamp out = timestamp f
     \<and> duration out = Some (case duration f of None \<Rightarrow> 0 | Some d \<Rightarrow> d)"
proof -
  from assms have "\<exists>c1 e1. renderWithWebGPU en f c = (Inr out, c1, e1)"
    unfolding render_def
    by (auto dest!: try_catch_InrD elim!: bnd_InrE seq_InrE simp: js_apply)
  then show ?thesis by (auto dest: renderWithWebGPU_metadata)
qed

section \<open>Claims\<close>

text \<open>
  C7. The outgoing frame's timestamp and duration are to equal the incoming frame's. The
  code hands the incoming duration to the frame constructor as it is; for a frame without
  duration that is \<^verbatim>\<open>null\<close>, which the constructor takes as 0. At a 1280x720 frame without
  duration both renderers succeed and return a frame whose duration is 0, not absent.
\<close>

theorem C7_null_duration:
  "duration frame_no_duration = None
   \<and> fst (WebGPURenderer_render quiet_env frame_no_duration
          (WebGPURenderer_fields quiet_env cpu_segmenter False False))
     = Inr \<lparr>displayWidth = 1280, displayHeight = 720, timestamp = 66666, duration = Some 0\<rparr>
   \<and> fst (render quiet_env frame_no_duration (closure_variables False False))
     = Inr (Some \<lparr>displayWidth = 1280, displayHeight = 720, timestamp = 66666,
                   duration = Some 0\<rparr>)"
  by (simp add: js_eval)

theorem C7_null_duration_witness:
  "fst (WebGPURenderer_render quiet_env frame_no_duration
          (WebGPURenderer_fields quiet_env cpu_segmenter False False))
     \<noteq> Inr \<lparr>displayWidth = 1280, displayHeight = 720, timestamp = 66666,
              duration = duration frame_no_duration\<rparr>"
  using C7_null_duration by (simp add: frame_no_duration_def)


text \<open>
  C10. In the class, on the GPU-native path the entry for binding 2 of the downscale bind
  group is built from the \<^verbatim>\<open>texture\<close> field of the destination resource, which is absent
  when the destination is the segmenter's input buffer. So whenever \<^verbatim>\<open>useInterop\<close> holds,
  every bind group descriptor \<^verbatim>\<open>segment\<close> hands to the device names the source, the
  sampler and \<open>Undefined\<close>, never the input buffer (an object made after the source and the
  sampler); and once the encoder and the input buffer are had, the descriptor is handed
  over and its conversion throws, so \<^verbatim>\<open>segment\<close> ends with a TypeError.
\<close>

theorem C10_interop_binding_undefined:
  assumes "useInterop s" and "WebGPURenderer_segment en src s = (r, s', evs)"
  shows "(\<forall>i p l. CreateBindGroup i p l \<in> set evs \<longrightarrow>
            l = [(0, if zeroCopy s then Object (oid src) else View (oid src)),
                 (1, Object (downscaleSampler s)), (2, Undefined)]
            \<and> (\<forall>b. GetInputBuffer b \<in> set evs \<longrightarrow>
                  oid src < next_id s \<longrightarrow> downscaleSampler s < next_id s \<longrightarrow>
                  Object b \<notin> snd ` set l \<and> View b \<notin> snd ` set l))
       \<and> (raises en (CreateCommandEncoder (next_id s)) = None \<longrightarrow>
          raises en (GetInputBuffer (Suc (next_id s))) = None \<longrightarrow>
            r = Inl (TypeError ''GPUBindGroupEntry.resource is required'')
            \<and> evs = [CreateCommandEncoder (next_id s), GetInputBuffer (Suc (next_id s)),
                 CreateBindGroup (Suc (Suc (next_id s))) (downscalePipeline s)
                   [(0, if zeroCopy s then Object (oid src) else View (oid src)),
                    (1, Object (downscaleSampler s)), (2, Undefined)]])"
  using assms
  by (auto simp: WebGPURenderer_segment_def WebGPURenderer_segment_body_def
      createBindGroup_def bnd_def seq_def create_def fresh_def call_def return_js_def gets_def
      emit_def throw_def split: option.splits if_splits)

theorem C10_interop_binding_undefined_witness:
  "useInterop (WebGPURenderer_fields quiet_env gpu_segmenter False False\<lparr>next_id := 6\<rparr>)
   \<and> fst (WebGPURenderer_segment quiet_env (GPUTexture 5 1280 720 ''rgba8unorm'' 22)
          (WebGPURenderer_fields quiet_env gpu_segmenter False False\<lparr>next_id := 6\<rparr>))
       = Inl (TypeError ''GPUBindGroupEntry.resource is required'')
   \<and> snd (snd (WebGPURenderer_segment quiet_env (GPUTexture 5 1280 720 ''rgba8unorm'' 22)
          (WebGPURenderer_fields quiet_env gpu_segmenter False False\<lparr>next_id := 6\<rparr>)))
       = [CreateCommandEncoder 6, GetInputBuffer 7,
          CreateBindGroup 8 2 [(0, View 5), (1, Object 0), (2, Undefined)]]"
proof -
  let ?s = "WebGPURenderer_fields quiet_env gpu_segmenter False False\<lparr>next_id := 6\<rparr>"
  let ?src = "GPUTexture 5 1280 720 ''rgba8unorm'' 22"
  have u: "useInterop ?s"
    by (simp add: useInterop_def WebGPURenderer_fields_def gpu_segmenter_def Let_def)
  have run: "WebGPURenderer_segment quiet_env ?src ?s =
      (fst (WebGPURenderer_segment quiet_env ?src ?s),
       fst (snd (WebGPURenderer_segment quiet_env ?src ?s)),
       snd (snd (WebGPURenderer_segment quiet_env ?src ?s)))"
    by simp
  have q: "raises quiet_env (CreateCommandEncoder (next_id ?s)) = None"
    "raises quiet_env (GetInputBuffer (Suc (next_id ?s))) = None"
    by (simp_all add: quiet_env_def)
  from C10_interop_binding_undefined[OF u run] q
  have "fst (WebGPURenderer_segment quiet_env ?src ?s)
          = Inl (TypeError ''GPUBindGroupEntry.resource is required'')
      \<and> snd (snd (WebGPURenderer_segment quiet_env ?src ?s))
          = [CreateCommandEncoder (next_id ?s), GetInputBuffer (Suc (next_id ?s)),
             CreateBindGroup (Suc (Suc (next_id ?s))) (downscalePipeline ?s)
               [(0, if zeroCopy ?s then Object (oid ?src) else View (oid ?src)),
                (1, Object (downscaleSampler ?s)), (2, Undefined)]]"
    by blast
  then show ?thesis using u by (simp add: WebGPURenderer_fields_def Let_def eval_nat_numeral)
qed


text \<open>
  C1. The path is chosen by \<^verbatim>\<open>useInterop\<close>, read at every call; with a segmenter that
  exposes \<^verbatim>\<open>segmentGPUBuffer\<close> and reports the device type gpu, the GPU-native path is
  to execute. It is entered, and no readback occurs, but it does not execute: at a
  1280x720 frame with such a segmenter and no collaborator throwing, \<^verbatim>\<open>render\<close> asks for
  the input buffer, hands the device a bind group descriptor whose binding 2 is
  \<open>Undefined\<close>, and ends there with a TypeError; the inference is never invoked.
\<close>

theorem C1_interop_path_aborts:
  "useInterop (WebGPURenderer_fields quiet_env gpu_segmenter False False)
   \<and> WebGPURenderer_render quiet_env frame_720
        (WebGPURenderer_fields quiet_env gpu_segmenter False False)
     = (Inl (TypeError ''GPUBindGroupEntry.resource is required''),
        fst (snd (WebGPURenderer_render quiet_env frame_720
          (WebGPURenderer_fields quiet_env gpu_segmenter False False))),
        [CreateTexture 5 1280 720 ''rgba8unorm'' 22,
         CopyExternalImageToTexture 5 1280 720,
         CreateCommandEncoder 6,
         GetInputBuffer 7,
         CreateBindGroup 8 2 [(0, View 5), (1, Object 0), (2, Undefined)]])"
  by (simp add: js_eval prod_eq_iff)

theorem C1_interop_path_aborts_witness:
  "SegmentGPUBuffer \<notin> set (snd (snd (WebGPURenderer_render quiet_env frame_720
        (WebGPURenderer_fields quiet_env gpu_segmenter False False))))
   \<and> filter readback_event (snd (snd (WebGPURenderer_render quiet_env frame_720
        (WebGPURenderer_fields quiet_env gpu_segmenter False False)))) = []"
proof -
  from C1_interop_path_aborts
  have "snd (snd (WebGPURenderer_render quiet_env frame_720
        (WebGPURenderer_fields quiet_env gpu_segmenter False False))) =
        [CreateTexture 5 1280 720 ''rgba8unorm'' 22,
         CopyExternalImageToTexture 5 1280 720,
         CreateCommandEncoder 6,
         GetInputBuffer 7,
         CreateBindGroup 8 2 [(0, View 5), (1, Object 0), (2, Undefined)]]"
    by (simp add: prod_eq_iff)
  then show ?thesis by (simp add: readback_event_def)
qed

text \<open>
  The returned \<^verbatim>\<open>render\<close> of the closure-based renderer never ends with an exception: what
  \<^verbatim>\<open>renderWithWebGPU\<close> throws is logged and the call yields no frame.
\<close>

lemma render_catches:
  "render en f c = (r, c', evs) \<Longrightarrow>
   (\<exists>out. r = Inr (Some out) \<and> renderWithWebGPU en f c = (Inr out, c', evs))
   \<or> (\<exists>e e1. r = Inr None \<and> renderWithWebGPU en f c = (Inl e, c', e1)
         \<and> evs = e1 @ [ConsoleWarn ''WebGPU rendering failed:'' e])"
  unfolding render_def try_catch_def bnd_def seq_def emit_def return_js_def
  by (auto split: prod.splits sum.splits)

text \<open>
  C3. An exception raised during \<^verbatim>\<open>render\<close> is to be caught, logged and to yield no
  frame, the pipeline staying usable. The closure-based \<^verbatim>\<open>render\<close> does so; the \<^verbatim>\<open>render\<close> of
  the class has no handler. With a CPU segmenter that throws at a 1280x720 frame, the
  class's \<^verbatim>\<open>render\<close> ends with that exception, where the closure-based one logs it and
  yields no frame; after the failed frame both renderers render the next frame.
\<close>

theorem C3_class_render_propagates:
  "fst (WebGPURenderer_render failing_env frame_720
          (WebGPURenderer_fields failing_env cpu_segmenter False False))
     = Inl (Exception ''inference failed'')
   \<and> fst (render failing_env frame_720 (closure_variables False False)) = Inr None
   \<and> last (snd (snd (render failing_env frame_720 (closure_variables False False))))
     = ConsoleWarn ''WebGPU rendering failed:'' (Exception ''inference failed'')
   \<and> fst (render quiet_env frame_720
          (fst (snd (render failing_env frame_720 (closure_variables False False)))))
     = Inr (Some \<lparr>displayWidth = 1280, displayHeight = 720, timestamp = 0,
                   duration = Some 33333\<rparr>)
   \<and> fst (WebGPURenderer_render quiet_env frame_720
          (fst (snd (WebGPURenderer_render failing_env frame_720
             (WebGPURenderer_fields failing_env cpu_segmenter False False)))))
     = Inr \<lparr>displayWidth = 1280, displayHeight = 720, timestamp = 0, duration = Some 33333\<rparr>"
  by (simp add: js_eval)

theorem C3_class_render_propagates_witness:
  "fst (WebGPURenderer_render failing_env frame_720
          (WebGPURenderer_fields failing_env cpu_segmenter False False))
     \<noteq> Inr \<lparr>displayWidth = 1280, displayHeight = 720, timestamp = 0, duration = Some 33333\<rparr>"
  using C3_class_render_propagates by simp


text \<open>Every texture the cache functions create has the format they compute.\<close>

lemma class_goct_format:
  "WebGPURenderer_getOrCreateTexture en key sz u s = (r, s', evs) \<Longrightarrow>
   CreateTexture i w h f u' \<in> set evs \<Longrightarrow> f = format s"
  by (cases sz)
     (auto simp: WebGPURenderer_getOrCreateTexture_def createTexture_def Let_def bnd_def seq_def
      create_def fresh_def call_def return_js_def gets_def modify_def
      split: option.splits if_splits)

lemma closure_goct_format:
  "getOrCreateTexture en key sz dout u s = (r, s', evs) \<Longrightarrow>
   CreateTexture i w h f u' \<in> set evs \<Longrightarrow> f = getTextureFormat en dout"
  by (cases sz)
     (auto simp: getOrCreateTexture_def createTexture_def Let_def bnd_def seq_def
      create_def fresh_def call_def return_js_def gets_def modify_def
      split: option.splits if_splits)

text \<open>
  C5. The encoding of the downscale output is to follow the segmenter alone, and not to
  depend on \<^verbatim>\<open>directOutput\<close>. The format of the downscale target does depend on it: with a
  CPU segmenter and a preferred canvas format of bgra8unorm, the target of a first
  1280x720 frame is a bgra8unorm texture when \<^verbatim>\<open>directOutput\<close> is set and an rgba8unorm
  texture when it is not, in the class and in the closure-based renderer alike.
\<close>

theorem C5_format_depends_on_directOutput:
  "CreateTexture 7 256 144 ''bgra8unorm'' 25
     \<in> set (snd (snd (WebGPURenderer_render quiet_env frame_720
          (WebGPURenderer_fields quiet_env cpu_segmenter False True))))
   \<and> CreateTexture 7 256 144 ''rgba8unorm'' 25
     \<in> set (snd (snd (WebGPURenderer_render quiet_env frame_720
          (WebGPURenderer_fields quiet_env cpu_segmenter False False))))
   \<and> CreateTexture 6 256 144 ''bgra8unorm'' 9
     \<in> set (snd (snd (render quiet_env frame_720 (closure_variables False True))))
   \<and> CreateTexture 6 256 144 ''rgba8unorm'' 9
     \<in> set (snd (snd (render quiet_env frame_720 (closure_variables False False))))"
  by (simp add: js_eval)

text \<open>
  C5, amended. What follows the segmenter alone is the downscale shader of the class: the
  rgb16float variant exactly when the segmenter exposes \<^verbatim>\<open>segmentGPUBuffer\<close> and reports the
  device type gpu, the rgba8uint variant otherwise, whatever \<^verbatim>\<open>directOutput\<close> is. The format
  of the textures, the downscale target among them, and the format written into the
  shader follow \<^verbatim>\<open>directOutput\<close> alone: the preferred canvas format when it is set,
  rgba8unorm when it is not, whatever the segmenter is.
\<close>

theorem C5_downscale_encoding:
  "shaderUrl (downscaleModule (WebGPURenderer_fields en sg zc dout)) =
     (if segmentGPUBuffer sg \<and> deviceType sg = ''gpu''
      then ''blur4/shaders/downscale-and-convert-to-rgb16float.wgsl''
      else ''blur4/shaders/downscale-and-convert-to-rgba8uint.wgsl'')
   \<and> format (WebGPURenderer_fields en sg zc dout) =
     (if dout then preferredCanvasFormat en else ''rgba8unorm'')
   \<and> map_of (substitutions (downscaleModule (WebGPURenderer_fields en sg zc dout)))
        ''outputTextureFormat'' = Some (if dout then preferredCanvasFormat en else ''rgba8unorm'')
   \<and> getTextureFormat en dout = (if dout then preferredCanvasFormat en else ''rgba8unorm'')
   \<and> (\<forall>key sz u s r s' evs i w h f u'.
         WebGPURenderer_getOrCreateTexture en key sz u s = (r, s', evs) \<longrightarrow>
         CreateTexture i w h f u' \<in> set evs \<longrightarrow> f = format s)
   \<and> (\<forall>key sz u c r c' evs i w h f u'.
         getOrCreateTexture en key sz dout u c = (r, c', evs) \<longrightarrow>
         CreateTexture i w h f u' \<in> set evs \<longrightarrow> f = getTextureFormat en dout)"
  by (auto simp: WebGPURenderer_fields_def packShaderUrl_def Let_def getTextureFormat_def
      dest: class_goct_format closure_goct_format[unfolded getTextureFormat_def])

theorem C5_downscale_encoding_witness:
  "shaderUrl (downscaleModule (WebGPURenderer_fields quiet_env gpu_segmenter False True))
     = ''blur4/shaders/downscale-and-convert-to-rgb16float.wgsl''
   \<and> shaderUrl (downscaleModule (WebGPURenderer_fields quiet_env cpu_segmenter False True))
     = ''blur4/shaders/downscale-and-convert-to-rgba8uint.wgsl''
   \<and> format (WebGPURenderer_fields quiet_env gpu_segmenter False True) = ''bgra8unorm''
   \<and> format (WebGPURenderer_fields quiet_env gpu_segmenter False False) = ''rgba8unorm''
   \<and> getTextureFormat quiet_env True = ''bgra8unorm''"
  using C5_downscale_encoding[of quiet_env gpu_segmenter False True]
    C5_downscale_encoding[of quiet_env cpu_segmenter False True]
    C5_downscale_encoding[of quiet_env gpu_segmenter False False]
  by (simp add: quiet_env_def gpu_segmenter_def cpu_segmenter_def)

end
